theory Spec2Isabelle
  imports Main "HOL-Library.Word"
begin

unbundle bit_operations_syntax

section \<open>The backend HTTP/2 session of shrpx (shrpx-http2-session.cc)\<close>

text \<open>
  The class \<^verbatim>\<open>Http2Session\<close> is embedded as a record that is passed through
  every member function and returned updated.  A member \<^verbatim>\<open>x_\<close> of the class is the
  field \<open>x\<close> of the record (a trailing underscore is not a legal name here;
  \<^verbatim>\<open>rev_\<close>, \<^verbatim>\<open>wev_\<close> are \<open>rev_io\<close>, \<open>wev_io\<close>, and the four dispatch slots
  \<^verbatim>\<open>read_\<close>, \<^verbatim>\<open>write_\<close>, \<^verbatim>\<open>on_read_\<close>, \<^verbatim>\<open>on_write_\<close> are \<open>read_fn\<close>, \<open>write_fn\<close>,
  \<open>on_read_fn\<close>, \<open>on_write_fn\<close>).  An \<^verbatim>\<open>int\<close> result is an \<open>int\<close>; a failed
  \<^verbatim>\<open>assert\<close>, \<^verbatim>\<open>DIE()\<close> and the dereference of a null pointer are values of the
  type \<open>abort\<close>, returned on the left of a sum.
\<close>

subsection \<open>Enumerations and plain data\<close>

text \<open>The connection states and the connection-check states of \<^verbatim>\<open>Http2Session\<close>.\<close>

datatype conn_state =
    DISCONNECTED
  | PROXY_CONNECTING
  | PROXY_CONNECTED
  | PROXY_FAILED
  | CONNECTING
  | CONNECT_FAILING
  | CONNECTED

datatype check_state =
    CONNECTION_CHECK_NONE
  | CONNECTION_CHECK_REQUIRED
  | CONNECTION_CHECK_STARTED

text \<open>
  The member functions that the four dispatch slots can point to
  (\<^verbatim>\<open>&Http2Session::noop\<close>, \<^verbatim>\<open>&Http2Session::connected\<close>, ...).
\<close>

datatype io_handler =
    H_noop
  | H_connected
  | H_read_clear
  | H_write_clear
  | H_tls_handshake
  | H_read_tls
  | H_write_tls
  | H_downstream_read
  | H_downstream_write
  | H_downstream_read_proxy
  | H_downstream_connect_proxy

datatype abort = AssertionFailed | Died | NullDereference

type_synonym byte = "8 word"

subsection \<open>The I/O buffers\<close>

text \<open>
  Modelled from the spec: the class of \<^verbatim>\<open>rb_\<close> and \<^verbatim>\<open>wb_\<close> (ringbuf.h) is not among
  the sources.  The session uses it as a bounded first-in first-out byte buffer:
  \<^verbatim>\<open>rleft()\<close> is the number of bytes stored, \<^verbatim>\<open>wleft()\<close> the free room,
  \<^verbatim>\<open>write(p, n)\<close> stores as many of the \<open>n\<close> bytes as fit and returns how many,
  \<^verbatim>\<open>get()\<close> gives the readable bytes, \<^verbatim>\<open>drain(n)\<close> drops \<open>n\<close> bytes from the front and
  \<^verbatim>\<open>reset()\<close> empties the buffer.  The wrap-around of the storage is not modelled.
\<close>

record ringbuf =
  capacity :: nat
  contents :: "byte list"

definition rleft :: "ringbuf \<Rightarrow> nat" where
  "rleft b = length (contents b)"

definition wleft :: "ringbuf \<Rightarrow> nat" where
  "wleft b = capacity b - length (contents b)"

definition rb_write :: "ringbuf \<Rightarrow> byte list \<Rightarrow> nat \<Rightarrow> nat \<times> ringbuf" where
  "rb_write b p n =
     (let k = min n (wleft b) in (k, b\<lparr>contents := contents b @ take k p\<rparr>))"

definition rb_get :: "ringbuf \<Rightarrow> byte list" where
  "rb_get b = contents b"

definition rb_drain :: "ringbuf \<Rightarrow> nat \<Rightarrow> ringbuf" where
  "rb_drain b n = b\<lparr>contents := drop n (contents b)\<rparr>"

definition rb_reset :: "ringbuf \<Rightarrow> ringbuf" where
  "rb_reset b = b\<lparr>contents := []\<rparr>"

subsection \<open>The HTTP/2 codec\<close>

text \<open>
  The codec library (nghttp2) is not part of the sources and is a black box: a
  codec session is a value of an arbitrary type \<open>'c\<close>, and the library functions
  the session calls are the fields of the record below.  A function that changes
  the codec session returns the new one beside its result.
  \<^verbatim>\<open>nghttp2_session_mem_send\<close> returns a negative error code, or the bytes to send
  (their number is the \<^verbatim>\<open>datalen\<close> of the source; no bytes is \<^verbatim>\<open>datalen == 0\<close>).
  The callbacks the codec makes while it receives and sends
  (\<open>on_frame_recv_callback\<close>, \<open>on_header_callback\<close>, ...) are functions of their own
  below; none of them touches \<^verbatim>\<open>rb_\<close>, \<^verbatim>\<open>wb_\<close> or the pending data.
\<close>

datatype mem_send_result = SendError int | SendData "byte list"

record 'c nghttp2 =
  nghttp2_session_callbacks_new :: int
  nghttp2_session_client_new2 :: "int \<times> 'c"
  nghttp2_submit_settings :: "'c \<Rightarrow> (nat \<times> int) list \<Rightarrow> int \<times> 'c"
  nghttp2_submit_window_update :: "'c \<Rightarrow> int \<Rightarrow> int \<Rightarrow> int \<times> 'c"
  nghttp2_submit_rst_stream :: "'c \<Rightarrow> int \<Rightarrow> nat \<Rightarrow> int \<times> 'c"
  nghttp2_submit_request :: "'c \<Rightarrow> (byte list \<times> byte list) list \<Rightarrow> nat \<Rightarrow> int \<times> 'c"
  nghttp2_session_terminate_session :: "'c \<Rightarrow> nat \<Rightarrow> int \<times> 'c"
  nghttp2_session_get_stream_user_data :: "'c \<Rightarrow> int \<Rightarrow> nat option"
  nghttp2_session_mem_send :: "'c \<Rightarrow> mem_send_result \<times> 'c"
  nghttp2_session_mem_recv :: "'c \<Rightarrow> byte list \<Rightarrow> int \<times> 'c"
  nghttp2_session_want_read :: "'c \<Rightarrow> bool"
  nghttp2_session_want_write :: "'c \<Rightarrow> bool"

text \<open>
  Constants of nghttp2.h (not among the sources), with the values HTTP/2 gives them:
  frame types, frame flags, header categories, error codes, settings identifiers,
  the library error code the header callback returns, and the client connection
  preface.
\<close>

definition NGHTTP2_DATA :: "8 word" where "NGHTTP2_DATA = 0"
definition NGHTTP2_HEADERS :: "8 word" where "NGHTTP2_HEADERS = 1"
definition NGHTTP2_RST_STREAM :: "8 word" where "NGHTTP2_RST_STREAM = 3"
definition NGHTTP2_SETTINGS :: "8 word" where "NGHTTP2_SETTINGS = 4"
definition NGHTTP2_PUSH_PROMISE :: "8 word" where "NGHTTP2_PUSH_PROMISE = 5"

definition NGHTTP2_FLAG_END_STREAM :: "8 word" where "NGHTTP2_FLAG_END_STREAM = 1"
definition NGHTTP2_FLAG_ACK :: "8 word" where "NGHTTP2_FLAG_ACK = 1"
definition NGHTTP2_NV_FLAG_NO_INDEX :: "8 word" where "NGHTTP2_NV_FLAG_NO_INDEX = 1"

datatype headers_category =
    NGHTTP2_HCAT_REQUEST
  | NGHTTP2_HCAT_RESPONSE
  | NGHTTP2_HCAT_PUSH_RESPONSE
  | NGHTTP2_HCAT_HEADERS

definition NGHTTP2_PROTOCOL_ERROR :: nat where "NGHTTP2_PROTOCOL_ERROR = 1"
definition NGHTTP2_INTERNAL_ERROR :: nat where "NGHTTP2_INTERNAL_ERROR = 2"
definition NGHTTP2_SETTINGS_TIMEOUT :: nat where "NGHTTP2_SETTINGS_TIMEOUT = 4"
definition NGHTTP2_REFUSED_STREAM :: nat where "NGHTTP2_REFUSED_STREAM = 7"
definition NGHTTP2_INADEQUATE_SECURITY :: nat where "NGHTTP2_INADEQUATE_SECURITY = 12"

definition NGHTTP2_SETTINGS_ENABLE_PUSH :: nat where "NGHTTP2_SETTINGS_ENABLE_PUSH = 2"
definition NGHTTP2_SETTINGS_MAX_CONCURRENT_STREAMS :: nat where
  "NGHTTP2_SETTINGS_MAX_CONCURRENT_STREAMS = 3"
definition NGHTTP2_SETTINGS_INITIAL_WINDOW_SIZE :: nat where
  "NGHTTP2_SETTINGS_INITIAL_WINDOW_SIZE = 4"
definition NGHTTP2_INITIAL_CONNECTION_WINDOW_SIZE :: int where
  "NGHTTP2_INITIAL_CONNECTION_WINDOW_SIZE = 65535"

definition NGHTTP2_ERR_TEMPORAL_CALLBACK_FAILURE :: int where
  "NGHTTP2_ERR_TEMPORAL_CALLBACK_FAILURE = - 521"

definition NGHTTP2_CLIENT_CONNECTION_PREFACE :: "byte list" where
  "NGHTTP2_CLIENT_CONNECTION_PREFACE =
     [0x50, 0x52, 0x49, 0x20, 0x2A, 0x20, 0x48, 0x54, 0x54, 0x50, 0x2F, 0x32,
      0x2E, 0x30, 0x0D, 0x0A, 0x0D, 0x0A, 0x53, 0x4D, 0x0D, 0x0A, 0x0D, 0x0A]"

definition NGHTTP2_CLIENT_CONNECTION_PREFACE_LEN :: nat where
  "NGHTTP2_CLIENT_CONNECTION_PREFACE_LEN = 24"

text \<open>
  A frame as the callbacks read it: the common header, and the members of the
  union the callbacks look at (\<^verbatim>\<open>headers.cat\<close>, \<^verbatim>\<open>rst_stream.error_code\<close>,
  \<^verbatim>\<open>push_promise.promised_stream_id\<close>).
\<close>

record nghttp2_frame =
  hd_type :: "8 word"
  hd_flags :: "8 word"
  hd_stream_id :: int
  headers_cat :: headers_category
  rst_stream_error_code :: nat
  promised_stream_id :: int

subsection \<open>Objects the session refers to\<close>

text \<open>
  Modelled from the spec: the classes \<^verbatim>\<open>Downstream\<close>, \<^verbatim>\<open>Http2DownstreamConnection\<close>
  and \<^verbatim>\<open>StreamData\<close> are declared in headers that are not among the sources.  A
  \<^verbatim>\<open>Downstream\<close> is one request and its response; the record holds the members the
  functions below read and write through its getters and setters
  (\<^verbatim>\<open>response_content_length\<close> is \<open>-1\<close> while no content-length was seen).
  \<^verbatim>\<open>add_response_header\<close> appends the header and adds its size to the cumulative
  size of the response header block; \<^verbatim>\<open>reset_downstream_rtimer\<close> re-arms the read
  timer of the stream.  The response states are the ones this file names.
\<close>

datatype msg_state = INITIAL | HEADER_COMPLETE | MSG_COMPLETE | MSG_RESET | MSG_BAD_HEADER

record header =
  hname :: "byte list"
  hvalue :: "byte list"
  hno_index :: bool
  htoken :: int

record Downstream =
  downstream_stream_id :: int
  response_state :: msg_state
  response_content_length :: int
  response_headers :: "header list"
  response_headers_sum :: nat
  expect_final_response :: bool
  downstream_rtimer :: bool

definition add_response_header ::
  "byte list \<Rightarrow> byte list \<Rightarrow> bool \<Rightarrow> int \<Rightarrow> Downstream \<Rightarrow> Downstream" where
  "add_response_header name val no_index token ds =
     ds\<lparr>response_headers := response_headers ds @
           [\<lparr>hname = name, hvalue = val, hno_index = no_index, htoken = token\<rparr>],
        response_headers_sum := response_headers_sum ds + length name + length val\<rparr>"

definition reset_downstream_rtimer :: "Downstream \<Rightarrow> Downstream" where
  "reset_downstream_rtimer ds = ds\<lparr>downstream_rtimer := True\<rparr>"

text \<open>
  Pointers are natural numbers, a null pointer is \<open>None\<close>.  A \<^verbatim>\<open>StreamData\<close> holds the
  pointer \<^verbatim>\<open>dconn\<close>; an \<^verbatim>\<open>Http2DownstreamConnection\<close> holds its client handler, its
  \<^verbatim>\<open>Downstream\<close> (kept by value: each connection has at most one) and the stream
  data attached to it.
\<close>

record StreamData =
  dconn :: "nat option"

record Http2DownstreamConnection =
  client_handler :: "nat option"
  downstream :: "Downstream option"
  stream_data :: "nat option"

text \<open>
  The tunnel parser (the http-parser library, not among the sources): the two members the
  session reads, and the rest of its state as a number.
\<close>

record http_parser =
  status_code :: nat
  http_errno :: nat
  parser_state :: nat

definition HPE_OK :: nat where "HPE_OK = 0"

text \<open>
  Calls the session makes into the upstream side (classes \<^verbatim>\<open>Upstream\<close> and
  \<^verbatim>\<open>ClientHandler\<close>, not among the sources) are recorded in the order they are
  made.  \<open>DeleteHandler h\<close> is \<^verbatim>\<open>delete h\<close>.
\<close>

datatype upcall =
    OnDownstreamReset nat bool
  | DeleteHandler nat
  | ResumeRead nat
  | OnDownstreamAbortRequest nat nat

text \<open>
  Modelled from the spec: the upstream handlers are not among the sources.  What
  a handler does to the session while it handles \<^verbatim>\<open>on_downstream_reset\<close>: it may
  attach and detach downstream connections and ask for a write.
\<close>

datatype reentry =
    AddDownstreamConnection nat
  | RemoveDownstreamConnection nat
  | SignalWrite

subsection \<open>The session\<close>

text \<open>
  The members of \<^verbatim>\<open>Http2Session\<close>.  A timer or an I/O watcher is \<open>True\<close> while it is
  active.  \<^verbatim>\<open>data_pending_\<close> and \<^verbatim>\<open>data_pendinglen_\<close> together denote a range of
  bytes inside the codec: \<open>data_pending\<close> is \<open>None\<close> for the null pointer and the bytes
  of the range otherwise, and \<open>data_pendinglen\<close> is their number.  The two heaps hold
  the objects the pointers of \<open>streams\<close> and \<open>dconns\<close> point to.  The last two fields
  are history, not members: the calls made into the upstream side, and the byte
  blocks \<^verbatim>\<open>nghttp2_session_mem_send\<close> has returned so far.
\<close>

record 'c Http2Session =
  state :: conn_state
  connection_check_state :: check_state
  session :: "'c option"
  ssl_ctx :: bool
  ssl :: bool
  fd :: int
  rb :: ringbuf
  wb :: ringbuf
  data_pending :: "byte list option"
  rt :: bool
  wt :: bool
  settings_timer :: bool
  connchk_timer :: bool
  rev_io :: bool
  wev_io :: bool
  read_fn :: io_handler
  write_fn :: io_handler
  on_read_fn :: io_handler
  on_write_fn :: io_handler
  proxy_htp :: "http_parser option"
  flow_control :: bool
  write_requested :: bool
  dconns :: "nat list"
  streams :: "nat list"
  sd_heap :: "nat \<rightharpoonup> StreamData"
  dconn_heap :: "nat \<rightharpoonup> Http2DownstreamConnection"
  upcalls :: "upcall list"
  mem_send_log :: "byte list list"

definition data_pendinglen :: "'c Http2Session \<Rightarrow> nat" where
  "data_pendinglen s = (case data_pending s of None \<Rightarrow> 0 | Some d \<Rightarrow> length d)"

text \<open>
  Everything else the session reads or calls that is not among the sources: the
  configuration (\<^verbatim>\<open>get_config()\<close>), the results of the socket and TLS calls, the
  tunnel parser, the header utilities of http2.h and util.h, and the upstream side.
  \<open>connect_started\<close> is \<^verbatim>\<open>rv == 0 || errno == EINPROGRESS\<close> after \<^verbatim>\<open>connect\<close>;
  \<open>npn_selected\<close> and \<open>alpn_selected\<close> are the protocols the two TLS queries give
  (\<open>alpn_supported\<close> is the compile-time test of the OpenSSL version);
  \<open>http_parser_execute\<close> returns the number of bytes parsed, the parser as it was at
  each call of the headers-complete callback, and the parser afterwards;
  \<open>push_request_headers\<close> (of \<^verbatim>\<open>Http2DownstreamConnection\<close>) calls back into the
  session and so maps the session to its result and the session it leaves;
  \<open>on_stream_frame_recv\<close> is what the DATA, HEADERS and RST-STREAM cases of
  \<open>on_frame_recv_callback\<close> leave of the session: they hand the frame to the
  \<^verbatim>\<open>Downstream\<close> and \<^verbatim>\<open>Upstream\<close> objects of the stream;
  \<open>on_downstream_reset\<close> gives the handler's result and its calls back into the
  session.
\<close>

record 'c env =
  downstream_http_proxy_host :: bool
  downstream_no_tls :: bool
  http2_max_concurrent_streams :: nat
  http2_downstream_window_bits :: nat
  http2_downstream_connection_window_bits :: nat
  create_nonblock_socket :: int
  connect_started :: bool
  check_socket_connected :: bool
  SSL_new_ok :: bool
  SSL_set_fd_ok :: bool
  npn_selected :: "byte list option"
  alpn_supported :: bool
  alpn_selected :: "byte list option"
  check_h2_is_selected :: "byte list \<Rightarrow> bool"
  check_http2_requirement :: bool
  http_parser_init :: http_parser
  http_parser_execute :: "http_parser \<Rightarrow> byte list \<Rightarrow> nat \<times> http_parser list \<times> http_parser"
  check_nv :: "byte list \<Rightarrow> byte list \<Rightarrow> bool"
  lookup_token :: "byte list \<Rightarrow> int"
  http2_header_allowed :: "int \<Rightarrow> bool"
  response_pseudo_header_allowed :: "Downstream \<Rightarrow> int \<Rightarrow> bool"
  parse_uint :: "byte list \<Rightarrow> int"
  HD_CONTENT_LENGTH :: int
  MAX_HEADERS_SUM :: nat
  push_request_headers :: "nat \<Rightarrow> 'c Http2Session \<Rightarrow> int \<times> 'c Http2Session"
  on_stream_frame_recv :: "nghttp2_frame \<Rightarrow> 'c Http2Session \<Rightarrow> 'c Http2Session"
  on_downstream_reset :: "nat \<Rightarrow> bool \<Rightarrow> int \<times> reentry list"

subsection \<open>Small member functions\<close>

definition signal_write :: "'c Http2Session \<Rightarrow> 'c Http2Session" where
  "signal_write s = s\<lparr>write_requested := True\<rparr>"

definition clear_write_request :: "'c Http2Session \<Rightarrow> 'c Http2Session" where
  "clear_write_request s = s\<lparr>write_requested := False\<rparr>"

definition get_state :: "'c Http2Session \<Rightarrow> conn_state" where
  "get_state s = state s"

definition set_state :: "conn_state \<Rightarrow> 'c Http2Session \<Rightarrow> 'c Http2Session" where
  "set_state st s = s\<lparr>state := st\<rparr>"

definition start_settings_timer :: "'c Http2Session \<Rightarrow> 'c Http2Session" where
  "start_settings_timer s = s\<lparr>settings_timer := True\<rparr>"

definition stop_settings_timer :: "'c Http2Session \<Rightarrow> 'c Http2Session" where
  "stop_settings_timer s = s\<lparr>settings_timer := False\<rparr>"

definition reset_connection_check_timer :: "'c Http2Session \<Rightarrow> 'c Http2Session" where
  "reset_connection_check_timer s = s\<lparr>connchk_timer := True\<rparr>"

definition add_downstream_connection :: "nat \<Rightarrow> 'c Http2Session \<Rightarrow> 'c Http2Session" where
  "add_downstream_connection d s = s\<lparr>dconns := List.insert d (dconns s)\<rparr>"

text \<open>\<^verbatim>\<open>dconn->detach_stream_data()\<close>: the connection and its stream data forget each other.\<close>

definition detach_stream_data :: "nat \<Rightarrow> 'c Http2Session \<Rightarrow> 'c Http2Session" where
  "detach_stream_data d s =
     (case dconn_heap s d of
        None \<Rightarrow> s
      | Some dc \<Rightarrow>
          (case stream_data dc of
             None \<Rightarrow> s
           | Some sd \<Rightarrow>
               s\<lparr>dconn_heap := (dconn_heap s)(d \<mapsto> dc\<lparr>stream_data := None\<rparr>),
                 sd_heap := (case sd_heap s sd of
                               None \<Rightarrow> sd_heap s
                             | Some x \<Rightarrow> (sd_heap s)(sd \<mapsto> x\<lparr>dconn := None\<rparr>))\<rparr>))"

definition remove_downstream_connection :: "nat \<Rightarrow> 'c Http2Session \<Rightarrow> 'c Http2Session" where
  "remove_downstream_connection d s =
     detach_stream_data d (s\<lparr>dconns := removeAll d (dconns s)\<rparr>)"

definition can_push_request :: "'c Http2Session \<Rightarrow> bool" where
  "can_push_request s =
     (state s = CONNECTED \<and> connection_check_state s = CONNECTION_CHECK_NONE)"

definition should_hard_fail :: "'c Http2Session \<Rightarrow> bool" where
  "should_hard_fail s =
     (case state s of
        PROXY_CONNECTING \<Rightarrow> True
      | PROXY_FAILED \<Rightarrow> True
      | CONNECTING \<Rightarrow> True
      | CONNECT_FAILING \<Rightarrow> True
      | _ \<Rightarrow> False)"

subsection \<open>Wrappers over the codec\<close>

text \<open>
  \<^verbatim>\<open>terminate_session\<close>, \<^verbatim>\<open>submit_rst_stream\<close> and \<^verbatim>\<open>submit_request\<close>.  The codec
  functions dereference the session pointer, so a null \<^verbatim>\<open>session_\<close> is an abort.
\<close>

definition terminate_session ::
  "'c nghttp2 \<Rightarrow> nat \<Rightarrow> 'c Http2Session \<Rightarrow> abort + int \<times> 'c Http2Session" where
  "terminate_session ng error_code s =
     (case session s of
        None \<Rightarrow> Inl NullDereference
      | Some c \<Rightarrow>
          (let (rv, c') = nghttp2_session_terminate_session ng c error_code in
           if rv \<noteq> 0 then Inr (- 1, s\<lparr>session := Some c'\<rparr>)
           else Inr (0, s\<lparr>session := Some c'\<rparr>)))"

definition submit_rst_stream ::
  "'c nghttp2 \<Rightarrow> int \<Rightarrow> nat \<Rightarrow> 'c Http2Session \<Rightarrow> abort + int \<times> 'c Http2Session" where
  "submit_rst_stream ng stream_id error_code s =
     (if state s \<noteq> CONNECTED then Inl AssertionFailed
      else
        (case session s of
           None \<Rightarrow> Inl NullDereference
         | Some c \<Rightarrow>
             (let (rv, c') = nghttp2_submit_rst_stream ng c stream_id error_code in
              if rv \<noteq> 0 then Inr (- 1, s\<lparr>session := Some c'\<rparr>)
              else Inr (0, s\<lparr>session := Some c'\<rparr>))))"

text \<open>
  \<open>submit_request ng dconn nva sd s\<close>: \<open>sd\<close> is the address of the \<^verbatim>\<open>StreamData\<close> that
  \<^verbatim>\<open>make_unique\<close> allocates; the priority is unused in the source and the data
  provider goes to the codec unread.  \<^verbatim>\<open>attach_stream_data\<close> links the connection
  and the stream data to each other.
\<close>

definition submit_request ::
  "'c nghttp2 \<Rightarrow> nat \<Rightarrow> (byte list \<times> byte list) list \<Rightarrow> nat \<Rightarrow> 'c Http2Session
     \<Rightarrow> abort + int \<times> 'c Http2Session" where
  "submit_request ng d nva sd s =
     (if state s \<noteq> CONNECTED then Inl AssertionFailed
      else
        (case session s of
           None \<Rightarrow> Inl NullDereference
         | Some c \<Rightarrow>
             (let (stream_id, c') = nghttp2_submit_request ng c nva sd in
              if stream_id < 0 then Inr (- 1, s\<lparr>session := Some c'\<rparr>)
              else
                (case dconn_heap s d of
                   None \<Rightarrow> Inl NullDereference
                 | Some dc \<Rightarrow>
                     (case downstream dc of
                        None \<Rightarrow> Inl NullDereference
                      | Some ds \<Rightarrow>
                          Inr (0, s\<lparr>session := Some c',
                                    sd_heap := (sd_heap s)(sd \<mapsto> \<lparr>dconn = Some d\<rparr>),
                                    dconn_heap := (dconn_heap s)(d \<mapsto>
                                      dc\<lparr>stream_data := Some sd,
                                         downstream := Some (ds\<lparr>downstream_stream_id := stream_id\<rparr>)\<rparr>),
                                    streams := List.insert sd (streams s)\<rparr>))))))"

subsection \<open>Teardown\<close>

definition apply_reentry :: "reentry \<Rightarrow> 'c Http2Session \<Rightarrow> 'c Http2Session" where
  "apply_reentry r s =
     (case r of
        AddDownstreamConnection d \<Rightarrow> add_downstream_connection d s
      | RemoveDownstreamConnection d \<Rightarrow> remove_downstream_connection d s
      | SignalWrite \<Rightarrow> signal_write s)"

definition handler_of :: "'c Http2Session \<Rightarrow> nat \<Rightarrow> nat option" where
  "handler_of s d = (case dconn_heap s d of None \<Rightarrow> None | Some dc \<Rightarrow> client_handler dc)"

text \<open>
  Modelled from the spec: \<^verbatim>\<open>delete h\<close> runs the destructor of \<^verbatim>\<open>ClientHandler\<close>, which
  is not among the sources.  By the comment in \<^verbatim>\<open>disconnect\<close>, the downstream
  connections of the handler are deleted with it and each calls
  \<^verbatim>\<open>remove_downstream_connection\<close> of the session.  \<open>known\<close> lists the connections
  that were in \<^verbatim>\<open>dconns_\<close> when the teardown began.
\<close>

definition delete_handler :: "nat list \<Rightarrow> nat \<Rightarrow> 'c Http2Session \<Rightarrow> 'c Http2Session" where
  "delete_handler known h s =
     (let mine = filter (\<lambda>d. handler_of s d = Some h) (remdups (known @ dconns s));
          s1 = fold remove_downstream_connection mine s
      in s1\<lparr>dconn_heap := (\<lambda>d. if d \<in> set mine then None else dconn_heap s1 d),
            upcalls := upcalls s1 @ [DeleteHandler h]\<rparr>)"

text \<open>One round of the loop over \<open>handlers\<close> in \<^verbatim>\<open>disconnect\<close>.\<close>

definition notify_handler ::
  "'c env \<Rightarrow> bool \<Rightarrow> nat list \<Rightarrow> nat \<Rightarrow> 'c Http2Session \<Rightarrow> 'c Http2Session" where
  "notify_handler env hard known h s =
     (let (rv, calls) = on_downstream_reset env h hard;
          s1 = fold apply_reentry calls (s\<lparr>upcalls := upcalls s @ [OnDownstreamReset h hard]\<rparr>)
      in if rv \<noteq> 0 then delete_handler known h s1 else s1)"

definition delete_stream_data :: "nat \<Rightarrow> 'c Http2Session \<Rightarrow> 'c Http2Session" where
  "delete_stream_data sd s = s\<lparr>sd_heap := (sd_heap s)(sd := None)\<rparr>"

definition disconnect :: "'c env \<Rightarrow> bool \<Rightarrow> 'c Http2Session \<Rightarrow> int \<times> 'c Http2Session" where
  "disconnect env hard s =
     (let s1 = s\<lparr>session := None,
                 rb := rb_reset (rb s),
                 wb := rb_reset (wb s),
                 settings_timer := False,
                 connchk_timer := False,
                 rt := False,
                 wt := False,
                 read_fn := H_noop,
                 write_fn := H_noop,
                 on_read_fn := H_noop,
                 on_write_fn := H_noop,
                 rev_io := False,
                 wev_io := False,
                 ssl := False,
                 fd := - 1,
                 proxy_htp := None,
                 connection_check_state := CONNECTION_CHECK_NONE,
                 state := DISCONNECTED\<rparr>;
          dconns_local = dconns s1;
          streams_local = streams s1;
          s2 = s1\<lparr>dconns := [], streams := []\<rparr>;
          handlers = remdups (List.map_filter (handler_of s2) dconns_local);
          s3 = fold (notify_handler env hard dconns_local) handlers s2;
          s4 = fold delete_stream_data streams_local s3
      in (0, s4))"

subsection \<open>Timer callbacks\<close>

text \<open>
  \<^verbatim>\<open>timeoutcb\<close> serves the read timer and the write timer alike.  The callbacks
  return nothing; the model returns the session they leave.  \<^verbatim>\<open>disconnect()\<close>
  without an argument is \<^verbatim>\<open>disconnect(false)\<close> (the default of the declaration).
\<close>

definition timeoutcb :: "'c env \<Rightarrow> 'c Http2Session \<Rightarrow> 'c Http2Session" where
  "timeoutcb env s = snd (disconnect env (get_state s = CONNECTING) s)"

definition settings_timeout_cb ::
  "'c nghttp2 \<Rightarrow> 'c env \<Rightarrow> 'c Http2Session \<Rightarrow> abort + 'c Http2Session" where
  "settings_timeout_cb ng env s =
     (case terminate_session ng NGHTTP2_SETTINGS_TIMEOUT (stop_settings_timer s) of
        Inl a \<Rightarrow> Inl a
      | Inr (rv, s1) \<Rightarrow>
          if rv \<noteq> 0 then Inr (snd (disconnect env False s1))
          else Inr (signal_write s1))"

definition connchk_timeout_cb :: "'c Http2Session \<Rightarrow> 'c Http2Session" where
  "connchk_timeout_cb s =
     s\<lparr>connchk_timer := False, connection_check_state := CONNECTION_CHECK_REQUIRED\<rparr>"

subsection \<open>Codec callbacks\<close>

text \<open>
  The chain \<^verbatim>\<open>nghttp2_session_get_stream_user_data\<close>, \<^verbatim>\<open>sd->dconn\<close>,
  \<^verbatim>\<open>get_downstream()\<close> that opens the callbacks; every null link makes them return
  0 at once.  The \<^verbatim>\<open>session\<close> argument of a callback is the codec session of
  \<^verbatim>\<open>session_\<close>.
\<close>

definition stream_downstream ::
  "'c nghttp2 \<Rightarrow> 'c Http2Session \<Rightarrow> int
     \<Rightarrow> (nat \<times> Http2DownstreamConnection \<times> Downstream) option" where
  "stream_downstream ng s stream_id =
     (case session s of
        None \<Rightarrow> None
      | Some c \<Rightarrow>
          (case nghttp2_session_get_stream_user_data ng c stream_id of
             None \<Rightarrow> None
           | Some sd \<Rightarrow>
               (case sd_heap s sd of
                  None \<Rightarrow> None
                | Some x \<Rightarrow>
                    (case dconn x of
                       None \<Rightarrow> None
                     | Some d \<Rightarrow>
                         (case dconn_heap s d of
                            None \<Rightarrow> None
                          | Some dc \<Rightarrow>
                              (case downstream dc of
                                 None \<Rightarrow> None
                               | Some ds \<Rightarrow> Some (d, dc, ds)))))))"

definition put_downstream ::
  "nat \<Rightarrow> Http2DownstreamConnection \<Rightarrow> Downstream \<Rightarrow> 'c Http2Session \<Rightarrow> 'c Http2Session" where
  "put_downstream d dc ds s = s\<lparr>dconn_heap := (dconn_heap s)(d \<mapsto> dc\<lparr>downstream := Some ds\<rparr>)\<rparr>"

definition on_frame_send_callback ::
  "'c nghttp2 \<Rightarrow> nghttp2_frame \<Rightarrow> 'c Http2Session \<Rightarrow> int \<times> 'c Http2Session" where
  "on_frame_send_callback ng frame s =
     (if hd_type frame = NGHTTP2_DATA \<or> hd_type frame = NGHTTP2_HEADERS then
        (if hd_flags frame AND NGHTTP2_FLAG_END_STREAM = 0 then (0, s)
         else
           (case stream_downstream ng s (hd_stream_id frame) of
              None \<Rightarrow> (0, s)
            | Some (d, dc, ds) \<Rightarrow>
                if downstream_stream_id ds \<noteq> hd_stream_id frame then (0, s)
                else (0, put_downstream d dc (reset_downstream_rtimer ds) s)))
      else if hd_type frame = NGHTTP2_SETTINGS \<and> hd_flags frame AND NGHTTP2_FLAG_ACK = 0
      then (0, start_settings_timer s)
      else (0, s))"

definition on_frame_recv_callback ::
  "'c nghttp2 \<Rightarrow> 'c env \<Rightarrow> nghttp2_frame \<Rightarrow> 'c Http2Session
     \<Rightarrow> abort + int \<times> 'c Http2Session" where
  "on_frame_recv_callback ng env frame s =
     (if hd_type frame = NGHTTP2_DATA \<or> hd_type frame = NGHTTP2_HEADERS
         \<or> hd_type frame = NGHTTP2_RST_STREAM
      then Inr (0, on_stream_frame_recv env frame s)
      else if hd_type frame = NGHTTP2_SETTINGS then
        (if hd_flags frame AND NGHTTP2_FLAG_ACK = 0 then Inr (0, s)
         else Inr (0, stop_settings_timer s))
      else if hd_type frame = NGHTTP2_PUSH_PROMISE then
        (case submit_rst_stream ng (promised_stream_id frame) NGHTTP2_REFUSED_STREAM s of
           Inl a \<Rightarrow> Inl a
         | Inr (rv, s1) \<Rightarrow> Inr (0, s1))
      else Inr (0, s))"

text \<open>
  \<^verbatim>\<open>name[0] == ':'\<close>: names are NUL-terminated, so the first byte of an empty name is
  not a colon.
\<close>

definition begins_with_colon :: "byte list \<Rightarrow> bool" where
  "begins_with_colon name = (case name of [] \<Rightarrow> False | c # _ \<Rightarrow> c = 0x3A)"

definition on_header_callback ::
  "'c nghttp2 \<Rightarrow> 'c env \<Rightarrow> nghttp2_frame \<Rightarrow> byte list \<Rightarrow> byte list \<Rightarrow> 8 word
     \<Rightarrow> 'c Http2Session \<Rightarrow> abort + int \<times> 'c Http2Session" where
  "on_header_callback ng env frame name val flags s =
     (case stream_downstream ng s (hd_stream_id frame) of
        None \<Rightarrow> Inr (0, s)
      | Some (d, dc, ds) \<Rightarrow>
          if hd_type frame \<noteq> NGHTTP2_HEADERS
             \<or> (headers_cat frame \<noteq> NGHTTP2_HCAT_RESPONSE \<and> \<not> expect_final_response ds)
          then Inr (0, s)
          else if response_headers_sum ds > MAX_HEADERS_SUM env
          then Inr (NGHTTP2_ERR_TEMPORAL_CALLBACK_FAILURE, s)
          else if \<not> check_nv env name val then Inr (0, s)
          else
            (let token = lookup_token env name in
             if begins_with_colon name \<and> \<not> response_pseudo_header_allowed env ds token then
               (case submit_rst_stream ng (hd_stream_id frame) NGHTTP2_PROTOCOL_ERROR s of
                  Inl a \<Rightarrow> Inl a
                | Inr (rv, s1) \<Rightarrow> Inr (NGHTTP2_ERR_TEMPORAL_CALLBACK_FAILURE, s1))
             else if \<not> http2_header_allowed env token then
               (case submit_rst_stream ng (hd_stream_id frame) NGHTTP2_PROTOCOL_ERROR s of
                  Inl a \<Rightarrow> Inl a
                | Inr (rv, s1) \<Rightarrow> Inr (NGHTTP2_ERR_TEMPORAL_CALLBACK_FAILURE, s1))
             else if token = HD_CONTENT_LENGTH env then
               (let len = parse_uint env val in
                if len = - 1 then
                  (case submit_rst_stream ng (hd_stream_id frame) NGHTTP2_PROTOCOL_ERROR s of
                     Inl a \<Rightarrow> Inl a
                   | Inr (rv, s1) \<Rightarrow>
                       Inr (NGHTTP2_ERR_TEMPORAL_CALLBACK_FAILURE,
                            put_downstream d dc (ds\<lparr>response_state := MSG_BAD_HEADER\<rparr>) s1))
                else if response_content_length ds \<noteq> - 1 then
                  (case submit_rst_stream ng (hd_stream_id frame) NGHTTP2_PROTOCOL_ERROR s of
                     Inl a \<Rightarrow> Inl a
                   | Inr (rv, s1) \<Rightarrow>
                       Inr (NGHTTP2_ERR_TEMPORAL_CALLBACK_FAILURE,
                            put_downstream d dc (ds\<lparr>response_state := MSG_BAD_HEADER\<rparr>) s1))
                else
                  Inr (0, put_downstream d dc
                            (add_response_header name val
                               (flags AND NGHTTP2_NV_FLAG_NO_INDEX \<noteq> 0) token
                               (ds\<lparr>response_content_length := len\<rparr>)) s))
             else
               Inr (0, put_downstream d dc
                         (add_response_header name val
                            (flags AND NGHTTP2_NV_FLAG_NO_INDEX \<noteq> 0) token ds) s)))"

subsection \<open>Connection establishment\<close>

text \<open>
  The loop over \<^verbatim>\<open>dconns_\<close> that ends \<open>on_connect\<close>: pending requests are submitted;
  a connection without a \<^verbatim>\<open>Downstream\<close> whose \<open>push_request_headers\<close> returned 0 is
  dereferenced by the source.
\<close>

fun submit_pending ::
  "'c env \<Rightarrow> nat list \<Rightarrow> 'c Http2Session \<Rightarrow> abort + 'c Http2Session" where
  "submit_pending env [] s = Inr s"
| "submit_pending env (d # ds) s =
     (let (rv, s1) = push_request_headers env d s;
          dstream = (case dconn_heap s1 d of None \<Rightarrow> None | Some dc \<Rightarrow> downstream dc)
      in if rv = 0 then
           (case dstream of
              None \<Rightarrow> Inl NullDereference
            | Some _ \<Rightarrow> submit_pending env ds (s1\<lparr>upcalls := upcalls s1 @ [ResumeRead d]\<rparr>))
         else
           (case dstream of
              None \<Rightarrow> submit_pending env ds s1
            | Some _ \<Rightarrow>
                submit_pending env ds
                  (s1\<lparr>upcalls := upcalls s1 @ [OnDownstreamAbortRequest d 400]\<rparr>)))"

text \<open>
  The protocol the TLS layer negotiated, as the two rounds of the loop in
  \<open>on_connect\<close> find it: NPN first, then ALPN where the library has it.
\<close>

definition next_proto :: "'c env \<Rightarrow> byte list option" where
  "next_proto env =
     (case npn_selected env of
        Some p \<Rightarrow> Some p
      | None \<Rightarrow> if alpn_supported env then alpn_selected env else None)"

text \<open>
  \<open>on_connect\<close>.  The callbacks table and the padding option only choose which
  callbacks the codec gets.  The window sizes are \<^verbatim>\<open>(1 << bits) - 1\<close>.
\<close>

definition on_connect ::
  "'c nghttp2 \<Rightarrow> 'c env \<Rightarrow> 'c Http2Session \<Rightarrow> abort + int \<times> 'c Http2Session" where
  "on_connect ng env s0 =
     (let s = s0\<lparr>state := CONNECTED\<rparr> in
      if ssl_ctx s \<and> \<not> ssl s then Inl NullDereference
      else if ssl_ctx s \<and>
              (case next_proto env of None \<Rightarrow> True | Some p \<Rightarrow> \<not> check_h2_is_selected env p)
      then Inr (- 1, s)
      else if nghttp2_session_callbacks_new ng \<noteq> 0 then Inr (- 1, s)
      else
        (let (rv, c0) = nghttp2_session_client_new2 ng in
         if rv \<noteq> 0 then Inr (- 1, s)
         else
           (let s1 = s\<lparr>session := Some c0, flow_control := True\<rparr>;
                (rv, c1) = nghttp2_submit_settings ng c0
                   [(NGHTTP2_SETTINGS_ENABLE_PUSH, 0),
                    (NGHTTP2_SETTINGS_MAX_CONCURRENT_STREAMS, int (http2_max_concurrent_streams env)),
                    (NGHTTP2_SETTINGS_INITIAL_WINDOW_SIZE, 2 ^ http2_downstream_window_bits env - 1)];
                s2 = s1\<lparr>session := Some c1\<rparr>
            in if rv \<noteq> 0 then Inr (- 1, s2)
               else
                 (let (rv, c2) =
                        (if http2_downstream_connection_window_bits env > 16
                         then nghttp2_submit_window_update ng c1 0
                                (2 ^ http2_downstream_connection_window_bits env - 1
                                   - NGHTTP2_INITIAL_CONNECTION_WINDOW_SIZE)
                         else (0, c1));
                      s3 = s2\<lparr>session := Some c2\<rparr>
                  in if rv \<noteq> 0 then Inr (- 1, s3)
                     else
                       (let (nwrite, wb') = rb_write (wb s3) NGHTTP2_CLIENT_CONNECTION_PREFACE
                                              NGHTTP2_CLIENT_CONNECTION_PREFACE_LEN;
                            s4 = s3\<lparr>wb := wb'\<rparr>
                        in if nwrite \<noteq> NGHTTP2_CLIENT_CONNECTION_PREFACE_LEN then Inr (- 1, s4)
                           else if \<not> downstream_no_tls env \<and> \<not> check_http2_requirement env then
                             (case terminate_session ng NGHTTP2_INADEQUATE_SECURITY s4 of
                                Inl a \<Rightarrow> Inl a
                              | Inr (rv, s5) \<Rightarrow> if rv \<noteq> 0 then Inr (- 1, s5) else Inr (0, s5))
                           else
                             (case submit_pending env (dconns s4) (reset_connection_check_timer s4) of
                                Inl a \<Rightarrow> Inl a
                              | Inr s5 \<Rightarrow> Inr (0, signal_write s5)))))))"

text \<open>
  The end of \<open>initiate_connection\<close>, shared by its TLS and clear-text branches: the
  watchers are stopped and set to the socket, the write watcher is started and the
  handlers are installed.
\<close>

definition install_handlers :: "'c Http2Session \<Rightarrow> int \<times> 'c Http2Session" where
  "install_handlers s =
     (let s1 = s\<lparr>rev_io := False,
                 wev_io := True,
                 write_fn := H_connected,
                 on_write_fn := H_downstream_write,
                 on_read_fn := H_downstream_read\<rparr>
      in if state s1 \<noteq> CONNECTED then (0, s1\<lparr>state := CONNECTING, wev_io := True, wt := True\<rparr>)
         else (0, s1\<lparr>rt := True\<rparr>))"

text \<open>Opening the socket to the backend: \<^verbatim>\<open>assert(fd_ == -1)\<close>, socket, connect.\<close>

definition open_socket :: "'c env \<Rightarrow> 'c Http2Session \<Rightarrow> abort + int \<times> 'c Http2Session" where
  "open_socket env s =
     (if fd s \<noteq> - 1 then Inl AssertionFailed
      else
        (let s1 = s\<lparr>fd := create_nonblock_socket env\<rparr> in
         if fd s1 = - 1 then Inr (- 1, s1)
         else if \<not> connect_started env then Inr (- 1, s1)
         else Inr (0, s1)))"

definition initiate_connection ::
  "'c nghttp2 \<Rightarrow> 'c env \<Rightarrow> 'c Http2Session \<Rightarrow> abort + int \<times> 'c Http2Session" where
  "initiate_connection ng env s =
     (if downstream_http_proxy_host env \<and> state s = DISCONNECTED then
        (let s1 = s\<lparr>fd := create_nonblock_socket env\<rparr> in
         if fd s1 = - 1 then Inr (- 1, s1)
         else if \<not> connect_started env then Inr (- 1, s1)
         else Inr (0, s1\<lparr>wev_io := True,
                          wt := True,
                          write_fn := H_connected,
                          on_read_fn := H_downstream_read_proxy,
                          on_write_fn := H_downstream_connect_proxy,
                          proxy_htp := Some (http_parser_init env),
                          state := PROXY_CONNECTING\<rparr>))
      else if state s = DISCONNECTED \<or> state s = PROXY_CONNECTED then
        (if ssl_ctx s then
           (if \<not> SSL_new_ok env then Inr (- 1, s\<lparr>ssl := False\<rparr>)
            else
              (let s1 = s\<lparr>ssl := True\<rparr> in
               case (if state s1 = DISCONNECTED then open_socket env s1 else Inr (0, s1)) of
                 Inl a \<Rightarrow> Inl a
               | Inr (rv, s2) \<Rightarrow>
                   if rv \<noteq> 0 then Inr (- 1, s2)
                   else if \<not> SSL_set_fd_ok env then Inr (- 1, s2)
                   else Inr (install_handlers s2)))
         else if state s = DISCONNECTED then
           (case open_socket env s of
              Inl a \<Rightarrow> Inl a
            | Inr (rv, s1) \<Rightarrow> if rv \<noteq> 0 then Inr (- 1, s1) else Inr (install_handlers s1))
         else
           (case on_connect ng env s of
              Inl a \<Rightarrow> Inl a
            | Inr (rv, s1) \<Rightarrow>
                if rv \<noteq> - 1 then Inr (- 1, s1\<lparr>state := CONNECT_FAILING\<rparr>)
                else Inr (install_handlers s1)))
      else Inl Died)"

text \<open>
  \<open>connected\<close>, the write handler while the socket connects.  \<^verbatim>\<open>do_write()\<close> calls
  through the slot \<^verbatim>\<open>write_\<close>; it is the parameter \<open>do_write\<close>.
\<close>

definition connected ::
  "'c nghttp2 \<Rightarrow> 'c env \<Rightarrow> ('c Http2Session \<Rightarrow> abort + int \<times> 'c Http2Session)
     \<Rightarrow> 'c Http2Session \<Rightarrow> abort + int \<times> 'c Http2Session" where
  "connected ng env do_write s =
     (if \<not> check_socket_connected env then Inr (- 1, s)
      else
        (let s1 = s\<lparr>rev_io := True\<rparr> in
         if ssl s1 then do_write (s1\<lparr>read_fn := H_tls_handshake, write_fn := H_tls_handshake\<rparr>)
         else
           (let s2 = s1\<lparr>read_fn := H_read_clear, write_fn := H_write_clear\<rparr> in
            if state s2 = PROXY_CONNECTING then do_write s2
            else
              (case on_connect ng env s2 of
                 Inl a \<Rightarrow> Inl a
               | Inr (rv, s3) \<Rightarrow>
                   if rv \<noteq> 0 then Inr (- 1, s3\<lparr>state := CONNECT_FAILING\<rparr>)
                   else Inr (0, s3)))))"

subsection \<open>The proxy tunnel\<close>

definition htp_hdrs_completecb ::
  "http_parser \<Rightarrow> 'c Http2Session \<Rightarrow> int \<times> 'c Http2Session" where
  "htp_hdrs_completecb htp s =
     (if status_code htp = 200 then (0, set_state PROXY_CONNECTED s)
      else (0, set_state PROXY_FAILED s))"

text \<open>
  \<open>downstream_read_proxy\<close>.  Nothing in the source bounds the number of rounds of
  its loop (the parser may consume nothing and report no error), so the first
  argument is the number of rounds allowed, and \<open>None\<close> says they did not suffice.
  The parser runs the headers-complete callback while it executes.
\<close>

fun downstream_read_proxy ::
  "nat \<Rightarrow> 'c nghttp2 \<Rightarrow> 'c env \<Rightarrow> 'c Http2Session
     \<Rightarrow> (abort + int \<times> 'c Http2Session) option" where
  "downstream_read_proxy 0 ng env s = None"
| "downstream_read_proxy (Suc n) ng env s =
     (let data = rb_get (rb s); datalen = length data in
      if datalen = 0 then Some (Inr (0, s))
      else
        (case proxy_htp s of
           None \<Rightarrow> Some (Inl NullDereference)
         | Some htp \<Rightarrow>
             (let (nread, fired, htp') = http_parser_execute env htp data;
                  s1 = fold (\<lambda>p t. snd (htp_hdrs_completecb p t)) fired s;
                  s2 = s1\<lparr>proxy_htp := Some htp', rb := rb_drain (rb s1) nread\<rparr>
              in if http_errno htp' \<noteq> HPE_OK then Some (Inr (- 1, s2))
                 else
                   (case state s2 of
                      PROXY_CONNECTED \<Rightarrow>
                        (case initiate_connection ng env s2 of
                           Inl a \<Rightarrow> Some (Inl a)
                         | Inr (rv, s3) \<Rightarrow>
                             if rv \<noteq> 0 then Some (Inr (- 1, s3))
                             else downstream_read_proxy n ng env s3)
                    | PROXY_FAILED \<Rightarrow> Some (Inr (- 1, s2))
                    | _ \<Rightarrow> downstream_read_proxy n ng env s2))))"

subsection \<open>Reading from and writing to the codec\<close>

text \<open>
  How a loop of the source ends: by an abort, by \<^verbatim>\<open>return -1\<close> or \<^verbatim>\<open>return 0\<close> inside
  the loop, or by \<^verbatim>\<open>break\<close>.
\<close>

datatype 'a loop_end = Aborted abort | ReturnedError 'a | ReturnedOk 'a | Broke 'a

text \<open>
  The loop of \<open>downstream_read\<close>: the readable bytes go to the codec, and are
  dropped from \<^verbatim>\<open>rb_\<close> unless the codec reports an error.
\<close>

function downstream_read_loop ::
  "'c nghttp2 \<Rightarrow> 'c Http2Session \<Rightarrow> 'c Http2Session loop_end" where
  "downstream_read_loop ng s =
     (if length (rb_get (rb s)) = 0 then Broke s
      else
        (case session s of
           None \<Rightarrow> Aborted NullDereference
         | Some c \<Rightarrow>
             (if fst (nghttp2_session_mem_recv ng c (rb_get (rb s))) < 0
              then ReturnedError
                     (s\<lparr>session := Some (snd (nghttp2_session_mem_recv ng c (rb_get (rb s))))\<rparr>)
              else downstream_read_loop ng
                     (s\<lparr>session := Some (snd (nghttp2_session_mem_recv ng c (rb_get (rb s)))),
                        rb := rb_drain (rb s) (length (rb_get (rb s)))\<rparr>))))"
  by pat_completeness auto
termination
  by (relation "measure (\<lambda>(ng, s). rleft (rb s))")
     (auto simp: rleft_def rb_get_def rb_drain_def)

declare downstream_read_loop.simps [simp del]

text \<open>
  The test that ends both \<open>downstream_read\<close> and \<open>downstream_write\<close>: the codec wants
  neither to read nor to write and \<^verbatim>\<open>wb_\<close> is empty.
\<close>

definition nothing_to_do :: "'c nghttp2 \<Rightarrow> 'c \<Rightarrow> 'c Http2Session \<Rightarrow> bool" where
  "nothing_to_do ng c s =
     (\<not> nghttp2_session_want_read ng c \<and> \<not> nghttp2_session_want_write ng c
      \<and> rleft (wb s) = 0)"

definition downstream_read ::
  "'c nghttp2 \<Rightarrow> 'c Http2Session \<Rightarrow> abort + int \<times> 'c Http2Session" where
  "downstream_read ng s =
     (case downstream_read_loop ng s of
        Aborted a \<Rightarrow> Inl a
      | ReturnedError s1 \<Rightarrow> Inr (- 1, s1)
      | ReturnedOk s1 \<Rightarrow> Inr (0, s1)
      | Broke s1 \<Rightarrow>
          (case session s1 of
             None \<Rightarrow> Inl NullDereference
           | Some c \<Rightarrow>
               if nothing_to_do ng c s1 then Inr (- 1, s1)
               else Inr (0, signal_write s1)))"

text \<open>
  The first part of \<open>downstream_write\<close>: the pending data go to \<^verbatim>\<open>wb_\<close> as far as
  there is room; what does not fit stays pending and the function returns.
\<close>

definition flush_pending :: "'c Http2Session \<Rightarrow> 'c Http2Session loop_end" where
  "flush_pending s =
     (case data_pending s of
        None \<Rightarrow> Broke s
      | Some p \<Rightarrow>
          (let n = min (wleft (wb s)) (data_pendinglen s);
               s1 = s\<lparr>wb := snd (rb_write (wb s) p n)\<rparr>
           in if n < data_pendinglen s then ReturnedOk (s1\<lparr>data_pending := Some (drop n p)\<rparr>)
              else Broke (s1\<lparr>data_pending := None\<rparr>)))"

text \<open>
  The loop of \<open>downstream_write\<close>: the codec produces a block, the block goes to
  \<^verbatim>\<open>wb_\<close>, and what does not fit becomes the pending data.
\<close>

function downstream_write_loop ::
  "'c nghttp2 \<Rightarrow> 'c Http2Session \<Rightarrow> 'c Http2Session loop_end" where
  "downstream_write_loop ng s =
     (case session s of
        None \<Rightarrow> Aborted NullDereference
      | Some c \<Rightarrow>
          (case fst (nghttp2_session_mem_send ng c) of
             SendError e \<Rightarrow>
               ReturnedError (s\<lparr>session := Some (snd (nghttp2_session_mem_send ng c))\<rparr>)
           | SendData data \<Rightarrow>
               (if length data = 0
                then Broke (s\<lparr>session := Some (snd (nghttp2_session_mem_send ng c)),
                              mem_send_log := mem_send_log s @ [data]\<rparr>)
                else if fst (rb_write (wb s) data (length data)) < length data
                then ReturnedOk
                       (s\<lparr>session := Some (snd (nghttp2_session_mem_send ng c)),
                          mem_send_log := mem_send_log s @ [data],
                          wb := snd (rb_write (wb s) data (length data)),
                          data_pending :=
                            Some (drop (fst (rb_write (wb s) data (length data))) data)\<rparr>)
                else downstream_write_loop ng
                       (s\<lparr>session := Some (snd (nghttp2_session_mem_send ng c)),
                          mem_send_log := mem_send_log s @ [data],
                          wb := snd (rb_write (wb s) data (length data))\<rparr>))))"
  by pat_completeness auto
termination
  by (relation "measure (\<lambda>(ng, s). wleft (wb s))")
     (auto simp: wleft_def rb_write_def Let_def min_def neq_Nil_conv split: if_splits)

declare downstream_write_loop.simps [simp del]

text \<open>
  \<open>downstream_write\<close> up to its final test, and the whole function.
\<close>

definition downstream_write_body ::
  "'c nghttp2 \<Rightarrow> 'c Http2Session \<Rightarrow> 'c Http2Session loop_end" where
  "downstream_write_body ng s =
     (case flush_pending s of
        Broke s1 \<Rightarrow> downstream_write_loop ng s1
      | e \<Rightarrow> e)"

definition downstream_write ::
  "'c nghttp2 \<Rightarrow> 'c Http2Session \<Rightarrow> abort + int \<times> 'c Http2Session" where
  "downstream_write ng s =
     (case downstream_write_body ng s of
        Aborted a \<Rightarrow> Inl a
      | ReturnedError s1 \<Rightarrow> Inr (- 1, s1)
      | ReturnedOk s1 \<Rightarrow> Inr (0, s1)
      | Broke s1 \<Rightarrow>
          (case session s1 of
             None \<Rightarrow> Inl NullDereference
           | Some c \<Rightarrow>
               if nothing_to_do ng c s1 then Inr (- 1, s1) else Inr (0, s1)))"

subsection \<open>The constructor, and a codec and an environment for concrete runs\<close>

text \<open>
  The constructor of \<^verbatim>\<open>Http2Session\<close>; the arguments are whether a TLS context is
  given and the size of the two buffers.
\<close>

definition Http2Session_new :: "bool \<Rightarrow> nat \<Rightarrow> 'c Http2Session" where
  "Http2Session_new ctx n =
     \<lparr>state = DISCONNECTED,
      connection_check_state = CONNECTION_CHECK_NONE,
      session = None,
      ssl_ctx = ctx,
      ssl = False,
      fd = - 1,
      rb = \<lparr>capacity = n, contents = []\<rparr>,
      wb = \<lparr>capacity = n, contents = []\<rparr>,
      data_pending = None,
      rt = False,
      wt = False,
      settings_timer = False,
      connchk_timer = False,
      rev_io = False,
      wev_io = False,
      read_fn = H_noop,
      write_fn = H_noop,
      on_read_fn = H_noop,
      on_write_fn = H_noop,
      proxy_htp = None,
      flow_control = False,
      write_requested = False,
      dconns = [],
      streams = [],
      sd_heap = Map.empty,
      dconn_heap = Map.empty,
      upcalls = [],
      mem_send_log = []\<rparr>"

text \<open>
  A codec for the concrete runs: it records the commands it is given and accepts
  them, produces the blocks of a script, and wants to read and write as its two
  flags say.
\<close>

datatype codec_call =
    CallSettings "(nat \<times> int) list"
  | CallWindowUpdate int int
  | CallRstStream int nat
  | CallRequest nat
  | CallTerminate nat
  | CallRecv "byte list"

record script_codec =
  calls :: "codec_call list"
  script :: "mem_send_result list"
  wants_read :: bool
  wants_write :: bool
  user_data :: "(int \<times> nat) list"

definition fresh_codec :: script_codec where
  "fresh_codec = \<lparr>calls = [], script = [], wants_read = True, wants_write = False, user_data = []\<rparr>"

definition scripted :: "script_codec nghttp2" where
  "scripted =
     \<lparr>nghttp2_session_callbacks_new = 0,
      nghttp2_session_client_new2 = (0, fresh_codec),
      nghttp2_submit_settings = (\<lambda>c iv. (0, c\<lparr>calls := calls c @ [CallSettings iv]\<rparr>)),
      nghttp2_submit_window_update =
        (\<lambda>c sid delta. (0, c\<lparr>calls := calls c @ [CallWindowUpdate sid delta]\<rparr>)),
      nghttp2_submit_rst_stream =
        (\<lambda>c sid code. (0, c\<lparr>calls := calls c @ [CallRstStream sid code]\<rparr>)),
      nghttp2_submit_request =
        (\<lambda>c nva sd. (1 + 2 * int (length (user_data c)),
                      c\<lparr>calls := calls c @ [CallRequest sd],
                        user_data := (1 + 2 * int (length (user_data c)), sd) # user_data c\<rparr>)),
      nghttp2_session_terminate_session =
        (\<lambda>c code. (0, c\<lparr>calls := calls c @ [CallTerminate code]\<rparr>)),
      nghttp2_session_get_stream_user_data = (\<lambda>c sid. map_of (user_data c) sid),
      nghttp2_session_mem_send =
        (\<lambda>c. case script c of [] \<Rightarrow> (SendData [], c) | r # rs \<Rightarrow> (r, c\<lparr>script := rs\<rparr>)),
      nghttp2_session_mem_recv =
        (\<lambda>c bs. (int (length bs), c\<lparr>calls := calls c @ [CallRecv bs]\<rparr>)),
      nghttp2_session_want_read = wants_read,
      nghttp2_session_want_write = wants_write\<rparr>"

text \<open>
  Modelled from the spec: \<^verbatim>\<open>util::parse_uint\<close> (util.cc is not among the sources), for
  the environment of the concrete runs: the value of a non-empty string of decimal
  digits that fits \<^verbatim>\<open>int64_t\<close>, and \<open>-1\<close> for every other string.
\<close>

fun parse_uint_from :: "int \<Rightarrow> byte list \<Rightarrow> int" where
  "parse_uint_from n [] = n"
| "parse_uint_from n (c # cs) =
     (if 0x30 \<le> c \<and> c \<le> 0x39 then
        (if n > (2 ^ 63 - 1) div 10 then - 1
         else if n * 10 > (2 ^ 63 - 1) - (uint c - 48) then - 1
         else parse_uint_from (n * 10 + (uint c - 48)) cs)
      else - 1)"

definition util_parse_uint :: "byte list \<Rightarrow> int" where
  "util_parse_uint v = (if v = [] then - 1 else parse_uint_from 0 v)"

definition content_length_name :: "byte list" where
  "content_length_name =
     [0x63, 0x6F, 0x6E, 0x74, 0x65, 0x6E, 0x74, 0x2D, 0x6C, 0x65, 0x6E, 0x67, 0x74, 0x68]"

text \<open>
  An environment for the concrete runs: no proxy and no TLS configured, every
  system call succeeds (the socket is descriptor 5), the tunnel parser reads
  everything and reports status 200 once, \<open>content-length\<close> is the one header name
  with a token, and the upstream side accepts every request and answers a reset
  with 0 and no call back.
\<close>

definition env0 :: "script_codec env" where
  "env0 =
     \<lparr>downstream_http_proxy_host = False,
      downstream_no_tls = True,
      http2_max_concurrent_streams = 100,
      http2_downstream_window_bits = 16,
      http2_downstream_connection_window_bits = 16,
      create_nonblock_socket = 5,
      connect_started = True,
      check_socket_connected = True,
      SSL_new_ok = True,
      SSL_set_fd_ok = True,
      npn_selected = None,
      alpn_supported = True,
      alpn_selected = None,
      check_h2_is_selected = (\<lambda>p. True),
      check_http2_requirement = True,
      http_parser_init = \<lparr>status_code = 0, http_errno = 0, parser_state = 0\<rparr>,
      http_parser_execute =
        (\<lambda>p bs. (length bs, [p\<lparr>status_code := 200\<rparr>], p\<lparr>status_code := 200\<rparr>)),
      check_nv = (\<lambda>n v. True),
      lookup_token = (\<lambda>n. if n = content_length_name then 1 else - 1),
      http2_header_allowed = (\<lambda>t. True),
      response_pseudo_header_allowed = (\<lambda>ds t. True),
      parse_uint = util_parse_uint,
      HD_CONTENT_LENGTH = 1,
      MAX_HEADERS_SUM = 32768,
      push_request_headers = (\<lambda>d s. (0, s)),
      on_stream_frame_recv = (\<lambda>f s. s),
      on_downstream_reset = (\<lambda>h hard. (0, []))\<rparr>"

subsection \<open>Notions the properties are stated with\<close>

text \<open>
  The \<open>hard\<close> arguments of the \<^verbatim>\<open>on_downstream_reset\<close> calls in a history of calls
  into the upstream side, in order.
\<close>

definition reset_flags :: "upcall list \<Rightarrow> bool list" where
  "reset_flags us =
     List.map_filter (\<lambda>u. case u of OnDownstreamReset h b \<Rightarrow> Some b | _ \<Rightarrow> None) us"

text \<open>
  The state \<^verbatim>\<open>disconnect\<close> leaves: no codec session, empty buffers, timers and
  watchers stopped, the four slots at \<^verbatim>\<open>noop\<close>, no connection check, disconnected.
\<close>

definition torn_down :: "'c Http2Session \<Rightarrow> bool" where
  "torn_down t =
     (session t = None \<and> contents (rb t) = [] \<and> contents (wb t) = []
      \<and> \<not> settings_timer t \<and> \<not> connchk_timer t \<and> \<not> rt t \<and> \<not> wt t
      \<and> \<not> rev_io t \<and> \<not> wev_io t
      \<and> read_fn t = H_noop \<and> write_fn t = H_noop
      \<and> on_read_fn t = H_noop \<and> on_write_fn t = H_noop
      \<and> connection_check_state t = CONNECTION_CHECK_NONE \<and> state t = DISCONNECTED)"

text \<open>
  Two sessions that differ at most in the attached downstream connections, the
  write request, the two heaps and the history of upstream calls: what the upstream
  handlers and the deletions at the end of \<^verbatim>\<open>disconnect\<close> can change.
\<close>

definition registry_only :: "'c Http2Session \<Rightarrow> 'c Http2Session \<Rightarrow> bool" where
  "registry_only s t =
     (state t = state s \<and> connection_check_state t = connection_check_state s
      \<and> session t = session s \<and> ssl_ctx t = ssl_ctx s \<and> ssl t = ssl s \<and> fd t = fd s
      \<and> rb t = rb s \<and> wb t = wb s \<and> data_pending t = data_pending s
      \<and> rt t = rt s \<and> wt t = wt s \<and> settings_timer t = settings_timer s
      \<and> connchk_timer t = connchk_timer s \<and> rev_io t = rev_io s \<and> wev_io t = wev_io s
      \<and> read_fn t = read_fn s \<and> write_fn t = write_fn s
      \<and> on_read_fn t = on_read_fn s \<and> on_write_fn t = on_write_fn s
      \<and> proxy_htp t = proxy_htp s \<and> flow_control t = flow_control s
      \<and> streams t = streams s \<and> mem_send_log t = mem_send_log s)"

text \<open>The session when \<^verbatim>\<open>disconnect\<close> has reset the members and emptied the two sets.\<close>

definition reset_members :: "'c Http2Session \<Rightarrow> 'c Http2Session" where
  "reset_members s =
     s\<lparr>session := None, rb := rb_reset (rb s), wb := rb_reset (wb s),
       settings_timer := False, connchk_timer := False, rt := False, wt := False,
       read_fn := H_noop, write_fn := H_noop, on_read_fn := H_noop, on_write_fn := H_noop,
       rev_io := False, wev_io := False, ssl := False, fd := - 1, proxy_htp := None,
       connection_check_state := CONNECTION_CHECK_NONE, state := DISCONNECTED,
       dconns := [], streams := []\<rparr>"

text \<open>
  A connected clear-text session for the concrete runs: three bytes wait in
  \<^verbatim>\<open>wb_\<close>, and one downstream connection (20, of client handler 30) is attached;
  its request is stream 1 of the codec, with the stream data 10, and no response
  header has arrived.
\<close>

definition response0 :: Downstream where
  "response0 =
     \<lparr>downstream_stream_id = 1, response_state = INITIAL, response_content_length = - 1,
      response_headers = [], response_headers_sum = 0, expect_final_response = False,
      downstream_rtimer = False\<rparr>"

definition connected_session :: "script_codec Http2Session" where
  "connected_session =
     (Http2Session_new False 64)
       \<lparr>state := CONNECTED, session := Some (fresh_codec\<lparr>user_data := [(1, 10)]\<rparr>), fd := 5,
        wb := \<lparr>capacity = 64, contents = [1, 2, 3]\<rparr>,
        rt := True, settings_timer := True, connchk_timer := True, rev_io := True,
        read_fn := H_read_clear, write_fn := H_write_clear,
        on_read_fn := H_downstream_read, on_write_fn := H_downstream_write,
        flow_control := True,
        dconns := [20], streams := [10],
        sd_heap := [10 \<mapsto> \<lparr>dconn = Some 20\<rparr>],
        dconn_heap := [20 \<mapsto> \<lparr>client_handler = Some 30, downstream = Some response0,
                                stream_data = Some 10\<rparr>]\<rparr>"

text \<open>The pending data as a byte string: empty when \<^verbatim>\<open>data_pending_\<close> is null.\<close>

definition pending_bytes :: "'c Http2Session \<Rightarrow> byte list" where
  "pending_bytes s = (case data_pending s of None \<Rightarrow> [] | Some p \<Rightarrow> p)"

text \<open>
  What a write pass from \<open>s\<close> to \<open>t\<close> keeps: the codec has returned the blocks \<open>new\<close>,
  \<^verbatim>\<open>wb_\<close> has grown by \<open>extra\<close> at its end, and \<open>extra\<close> followed by the pending data of
  \<open>t\<close> is the pending data of \<open>s\<close> followed by the new blocks.
\<close>

definition conserves :: "'c Http2Session \<Rightarrow> 'c Http2Session \<Rightarrow> bool" where
  "conserves s t =
     (\<exists>new extra.
        mem_send_log t = mem_send_log s @ new
        \<and> contents (wb t) = contents (wb s) @ extra
        \<and> extra @ pending_bytes t = pending_bytes s @ concat new
        \<and> capacity (wb t) = capacity (wb s))"

fun end_state :: "'a loop_end \<Rightarrow> 'a option" where
  "end_state (Aborted a) = None"
| "end_state (ReturnedError t) = Some t"
| "end_state (ReturnedOk t) = Some t"
| "end_state (Broke t) = Some t"

text \<open>Frames for the concrete runs.\<close>

definition settings_frame :: "8 word \<Rightarrow> nghttp2_frame" where
  "settings_frame fl =
     \<lparr>hd_type = NGHTTP2_SETTINGS, hd_flags = fl, hd_stream_id = 0,
      headers_cat = NGHTTP2_HCAT_REQUEST, rst_stream_error_code = 0, promised_stream_id = 0\<rparr>"

definition response_headers_frame :: nghttp2_frame where
  "response_headers_frame =
     \<lparr>hd_type = NGHTTP2_HEADERS, hd_flags = 4, hd_stream_id = 1,
      headers_cat = NGHTTP2_HCAT_RESPONSE, rst_stream_error_code = 0, promised_stream_id = 0\<rparr>"

text \<open>The connected session with another response record for its one request.\<close>

definition with_response :: "Downstream \<Rightarrow> script_codec Http2Session" where
  "with_response ds =
     connected_session
       \<lparr>dconn_heap := [20 \<mapsto> \<lparr>client_handler = Some 30, downstream = Some ds,
                                stream_data = Some 10\<rparr>]\<rparr>"

text \<open>
  The response record after one header \<open>x\<close> with a value of 32768 bytes has been
  added to \<open>response0\<close>.
\<close>

definition after_big_header :: Downstream where
  "after_big_header =
     response0
       \<lparr>response_headers :=
          [\<lparr>hname = [0x78], hvalue = replicate 32768 0x61, hno_index = False, htoken = - 1\<rparr>],
        response_headers_sum := 32769\<rparr>"

text \<open>
  A session with a TLS context that waits for the answer of the proxy, four bytes
  of which are in \<^verbatim>\<open>rb_\<close>; and an environment whose tunnel parser reports status
  407.
\<close>

definition proxy_session :: "script_codec Http2Session" where
  "proxy_session =
     (Http2Session_new True 64)
       \<lparr>state := PROXY_CONNECTING, fd := 5,
        rb := \<lparr>capacity = 64, contents = [0x48, 0x54, 0x54, 0x50]\<rparr>,
        proxy_htp := Some \<lparr>status_code = 0, http_errno = 0, parser_state = 0\<rparr>,
        rev_io := True, read_fn := H_read_clear, write_fn := H_write_clear,
        on_read_fn := H_downstream_read_proxy\<rparr>"

definition env407 :: "script_codec env" where
  "env407 =
     env0\<lparr>http_parser_execute :=
            (\<lambda>p bs. (length bs, [p\<lparr>status_code := 407\<rparr>], p\<lparr>status_code := 407\<rparr>))\<rparr>"

text \<open>
  A clear-text session (no TLS context) whose tunnel through the proxy is
  established; and a codec library that cannot allocate the callbacks table.
\<close>

definition tunnelled_session :: "script_codec Http2Session" where
  "tunnelled_session =
     (Http2Session_new False 64)
       \<lparr>state := PROXY_CONNECTED, fd := 5,
        proxy_htp := Some \<lparr>status_code = 200, http_errno = 0, parser_state = 0\<rparr>,
        rev_io := True, read_fn := H_read_clear, write_fn := H_write_clear,
        on_read_fn := H_downstream_read_proxy\<rparr>"

definition out_of_memory :: "script_codec nghttp2" where
  "out_of_memory = scripted\<lparr>nghttp2_session_callbacks_new := - 901\<rparr>"

text \<open>
  A connected session with buffers of four bytes whose codec has two blocks of
  three bytes to send, and the session a first write pass leaves of it; and a
  connected session with an empty \<^verbatim>\<open>wb_\<close> whose codec wants neither to read nor to
  write.
\<close>

definition small_session :: "script_codec Http2Session" where
  "small_session =
     (Http2Session_new False 4)
       \<lparr>state := CONNECTED,
        session := Some (fresh_codec\<lparr>script := [SendData [1, 2, 3], SendData [4, 5, 6]]\<rparr>),
        fd := 5, read_fn := H_read_clear, write_fn := H_write_clear,
        on_read_fn := H_downstream_read, on_write_fn := H_downstream_write\<rparr>"

definition after_first_pass :: "script_codec Http2Session" where
  "after_first_pass =
     small_session
       \<lparr>session := Some fresh_codec,
        wb := \<lparr>capacity = 4, contents = [1, 2, 3, 4]\<rparr>,
        data_pending := Some [5, 6],
        mem_send_log := [[1, 2, 3], [4, 5, 6]]\<rparr>"

definition quiet_session :: "script_codec Http2Session" where
  "quiet_session =
     connected_session
       \<lparr>session := Some (fresh_codec\<lparr>wants_read := False\<rparr>),
        wb := \<lparr>capacity = 64, contents = []\<rparr>\<rparr>"

section \<open>Properties\<close>

subsection \<open>Hard failures\<close>

text \<open>
  C7.  \<open>should_hard_fail\<close> is true exactly in the four states \<open>PROXY_CONNECTING\<close>,
  \<open>PROXY_FAILED\<close>, \<open>CONNECTING\<close> and \<open>CONNECT_FAILING\<close>, and false exactly in the three
  others, \<open>DISCONNECTED\<close>, \<open>PROXY_CONNECTED\<close> and \<open>CONNECTED\<close>.
\<close>

theorem should_hard_fail_states:
  "should_hard_fail s =
     (state s = PROXY_CONNECTING \<or> state s = PROXY_FAILED
      \<or> state s = CONNECTING \<or> state s = CONNECT_FAILING)
   \<and> (\<not> should_hard_fail s) =
     (state s = DISCONNECTED \<or> state s = PROXY_CONNECTED \<or> state s = CONNECTED)"
  by (cases "state s") (simp_all add: should_hard_fail_def)

subsection \<open>Submission gating\<close>

text \<open>
  C2, as the claim states it, fails: \<open>submit_request\<close> accepts a request while the
  connection-check state is not \<open>CONNECTION_CHECK_NONE\<close>.  On the connected session
  whose connection-check timer has fired (\<open>connchk_timeout_cb\<close> has set the state
  \<open>CONNECTION_CHECK_REQUIRED\<close>), \<open>can_push_request\<close> is false, and \<open>submit_request\<close>
  still returns 0, attaches the new stream data 11 to the downstream connection 20
  and puts it into \<^verbatim>\<open>streams_\<close>.
\<close>

theorem submit_request_check_required_counterexample:
  "state (connchk_timeout_cb connected_session) = CONNECTED
   \<and> connection_check_state (connchk_timeout_cb connected_session)
       = CONNECTION_CHECK_REQUIRED
   \<and> \<not> can_push_request (connchk_timeout_cb connected_session)
   \<and> (case submit_request scripted 20 [] 11 (connchk_timeout_cb connected_session) of
         Inl a \<Rightarrow> False
       | Inr (rv, s') \<Rightarrow>
           rv = 0 \<and> streams s' = [11, 10] \<and> sd_heap s' 11 = Some \<lparr>dconn = Some 20\<rparr>
           \<and> map_option calls (session s') = Some [CallRequest 11]
           \<and> connection_check_state s' = CONNECTION_CHECK_REQUIRED)"
  by (simp add: connchk_timeout_cb_def can_push_request_def connected_session_def
        Http2Session_new_def submit_request_def scripted_def fresh_codec_def response0_def)

text \<open>
  C2, amended.  \<open>submit_request\<close> has the precondition that the state is \<open>CONNECTED\<close>
  and nothing more: its assertion fails exactly in the other states, so it returns
  a result only in the state \<open>CONNECTED\<close>, and it does not read the connection-check
  state (with another connection-check state it does the same and returns the
  same).  \<open>can_push_request\<close> is true exactly when the state is \<open>CONNECTED\<close> and the
  connection-check state is \<open>CONNECTION_CHECK_NONE\<close>, and whenever it is true the
  assertion of \<open>submit_request\<close> holds.  The connection-check part of the gate is
  \<open>can_push_request\<close> alone, for the caller to ask before it submits.
\<close>

theorem submit_request_state_gate:
  "can_push_request s =
     (state s = CONNECTED \<and> connection_check_state s = CONNECTION_CHECK_NONE)
   \<and> (submit_request ng d nva sd s = Inl AssertionFailed) = (state s \<noteq> CONNECTED)
   \<and> (\<forall>rv s'. submit_request ng d nva sd s = Inr (rv, s') \<longrightarrow> state s = CONNECTED)
   \<and> submit_request ng d nva sd (s\<lparr>connection_check_state := cs\<rparr>)
       = (case submit_request ng d nva sd s of
            Inl a \<Rightarrow> Inl a
          | Inr (rv, t) \<Rightarrow> Inr (rv, t\<lparr>connection_check_state := cs\<rparr>))
   \<and> (can_push_request s \<longrightarrow> submit_request ng d nva sd s \<noteq> Inl AssertionFailed)"
proof (intro conjI)
  show "can_push_request s =
     (state s = CONNECTED \<and> connection_check_state s = CONNECTION_CHECK_NONE)"
    by (simp add: can_push_request_def)
next
  show "(submit_request ng d nva sd s = Inl AssertionFailed) = (state s \<noteq> CONNECTED)"
    by (auto simp: submit_request_def Let_def split: option.splits prod.splits if_splits)
next
  show "\<forall>rv s'. submit_request ng d nva sd s = Inr (rv, s') \<longrightarrow> state s = CONNECTED"
    by (auto simp: submit_request_def split: if_splits)
next
  show "submit_request ng d nva sd (s\<lparr>connection_check_state := cs\<rparr>)
       = (case submit_request ng d nva sd s of
            Inl a \<Rightarrow> Inl a
          | Inr (rv, t) \<Rightarrow> Inr (rv, t\<lparr>connection_check_state := cs\<rparr>))"
    by (simp add: submit_request_def Let_def split: option.splits prod.splits)
next
  show "can_push_request s \<longrightarrow> submit_request ng d nva sd s \<noteq> Inl AssertionFailed"
    by (auto simp: can_push_request_def submit_request_def Let_def
          split: option.splits prod.splits if_splits)
qed

theorem submit_request_state_gate_witness:
  "can_push_request connected_session
   \<and> state connected_session = CONNECTED
   \<and> (case submit_request scripted 20 [] 11 connected_session of
         Inl a \<Rightarrow> False
       | Inr (rv, s') \<Rightarrow> rv = 0 \<and> streams s' = [11, 10])
   \<and> (case submit_request scripted 20 [] 11
              (connected_session\<lparr>connection_check_state := CONNECTION_CHECK_STARTED\<rparr>) of
         Inl a \<Rightarrow> False
       | Inr (rv, s') \<Rightarrow> rv = 0 \<and> streams s' = [11, 10])
   \<and> submit_request scripted 20 [] 11 (connected_session\<lparr>state := CONNECTING\<rparr>)
       = Inl AssertionFailed"
proof -
  have e: "can_push_request connected_session \<and> state connected_session = CONNECTED"
    by (simp add: can_push_request_def connected_session_def Http2Session_new_def)
  have b: "\<exists>s'. submit_request scripted 20 [] 11 connected_session = Inr (0, s')
             \<and> streams s' = [11, 10]"
    by (simp add: connected_session_def Http2Session_new_def submit_request_def scripted_def
          fresh_codec_def)
  then obtain s' where s': "submit_request scripted 20 [] 11 connected_session = Inr (0, s')"
    "streams s' = [11, 10]"
    by blast
  have g: "state (connected_session\<lparr>state := CONNECTING\<rparr>) \<noteq> CONNECTED"
    by simp
  note t1 = submit_request_state_gate
              [of connected_session scripted 20 "[]" 11 CONNECTION_CHECK_STARTED]
  note t2 = submit_request_state_gate
              [of "connected_session\<lparr>state := CONNECTING\<rparr>" scripted 20 "[]" 11
                  CONNECTION_CHECK_NONE]
  have c: "submit_request scripted 20 [] 11
             (connected_session\<lparr>connection_check_state := CONNECTION_CHECK_STARTED\<rparr>)
           = Inr (0, s'\<lparr>connection_check_state := CONNECTION_CHECK_STARTED\<rparr>)"
    using t1 s'(1) by (simp only: sum.case prod.case)
  have d: "submit_request scripted 20 [] 11 (connected_session\<lparr>state := CONNECTING\<rparr>)
             = Inl AssertionFailed"
    using t2 g by blast
  show ?thesis
    using c d e s' by simp
qed

subsection \<open>Teardown\<close>

lemma registry_only_refl: "registry_only s s"
  by (simp add: registry_only_def)

lemma registry_only_trans:
  "registry_only s t \<Longrightarrow> registry_only t u \<Longrightarrow> registry_only s u"
  by (simp add: registry_only_def)

lemma registry_only_detach: "registry_only s (detach_stream_data d s)"
  by (simp add: registry_only_def detach_stream_data_def split: option.splits)

lemma registry_only_remove: "registry_only s (remove_downstream_connection d s)"
  using registry_only_detach [of "s\<lparr>dconns := removeAll d (dconns s)\<rparr>" d]
  by (simp add: registry_only_def remove_downstream_connection_def)

lemma registry_only_fold:
  assumes "\<And>x t. registry_only t (f x t)"
  shows "registry_only s (fold f xs s)"
proof (induction xs arbitrary: s)
  case Nil
  show ?case by (simp add: registry_only_refl)
next
  case (Cons x xs)
  have "registry_only s (f x s)" by (rule assms)
  moreover have "registry_only (f x s) (fold f xs (f x s))" by (rule Cons.IH)
  ultimately show ?case by (auto intro: registry_only_trans)
qed

lemma registry_only_reentry: "registry_only s (apply_reentry r s)"
proof (cases r)
  case (AddDownstreamConnection d)
  then show ?thesis
    by (simp add: apply_reentry_def add_downstream_connection_def registry_only_def)
next
  case (RemoveDownstreamConnection d)
  then show ?thesis
    by (simp add: apply_reentry_def registry_only_remove)
next
  case SignalWrite
  then show ?thesis
    by (simp add: apply_reentry_def signal_write_def registry_only_def)
qed

lemma registry_only_delete_handler: "registry_only s (delete_handler known h s)"
proof -
  have "registry_only s (fold remove_downstream_connection xs s)" for xs
    by (rule registry_only_fold) (rule registry_only_remove)
  then show ?thesis
    by (simp add: delete_handler_def Let_def registry_only_def)
qed

lemma registry_only_notify: "registry_only s (notify_handler env hard known h s)"
proof -
  obtain rv cs where r: "on_downstream_reset env h hard = (rv, cs)"
    by (cases "on_downstream_reset env h hard")
  let ?s0 = "s\<lparr>upcalls := upcalls s @ [OnDownstreamReset h hard]\<rparr>"
  have a: "registry_only s ?s0" by (simp add: registry_only_def)
  have b: "registry_only ?s0 (fold apply_reentry cs ?s0)"
    by (rule registry_only_fold) (rule registry_only_reentry)
  have c: "registry_only s (fold apply_reentry cs ?s0)"
    using a b by (rule registry_only_trans)
  show ?thesis
    using c registry_only_delete_handler [of "fold apply_reentry cs ?s0" known h]
    by (auto simp: notify_handler_def r Let_def intro: registry_only_trans)
qed

lemma registry_only_delete_stream: "registry_only s (delete_stream_data sd s)"
  by (simp add: registry_only_def delete_stream_data_def)

lemma disconnect_unfold:
  "disconnect env hard s =
     (0, fold delete_stream_data (streams s)
           (fold (notify_handler env hard (dconns s))
              (remdups (List.map_filter (handler_of (reset_members s)) (dconns s)))
              (reset_members s)))"
  by (simp add: disconnect_def Let_def reset_members_def)

lemma disconnect_registry_only:
  "fst (disconnect env hard s) = 0
   \<and> registry_only (reset_members s) (snd (disconnect env hard s))"
proof -
  let ?s2 = "reset_members s"
  let ?hs = "remdups (List.map_filter (handler_of ?s2) (dconns s))"
  let ?s3 = "fold (notify_handler env hard (dconns s)) ?hs ?s2"
  let ?s4 = "fold delete_stream_data (streams s) ?s3"
  have "registry_only ?s2 ?s3"
    by (rule registry_only_fold) (rule registry_only_notify)
  moreover have "registry_only ?s3 ?s4"
    by (rule registry_only_fold) (rule registry_only_delete_stream)
  ultimately have "registry_only ?s2 ?s4" by (rule registry_only_trans)
  then show ?thesis by (simp add: disconnect_unfold)
qed

lemma disconnect_torn_down: "torn_down (snd (disconnect env hard s))"
  using disconnect_registry_only [of env hard s]
  by (simp add: registry_only_def torn_down_def reset_members_def rb_reset_def)

text \<open>\<^verbatim>\<open>disconnect\<close> leaves the pending data as they are: it does not reset them.\<close>

lemma disconnect_keeps_data_pending:
  "data_pending (snd (disconnect env hard s)) = data_pending s"
  using disconnect_registry_only [of env hard s]
  by (simp add: registry_only_def reset_members_def)

lemma disconnect_streams: "streams (snd (disconnect env hard s)) = []"
  using disconnect_registry_only [of env hard s]
  by (simp add: registry_only_def reset_members_def)

lemma disconnect_rest:
  "\<not> ssl (snd (disconnect env hard s)) \<and> fd (snd (disconnect env hard s)) = - 1
   \<and> proxy_htp (snd (disconnect env hard s)) = None
   \<and> capacity (rb (snd (disconnect env hard s))) = capacity (rb s)
   \<and> capacity (wb (snd (disconnect env hard s))) = capacity (wb s)"
  using disconnect_registry_only [of env hard s]
  by (simp add: registry_only_def reset_members_def rb_reset_def)

lemma rb_reset_empty: "contents b = [] \<Longrightarrow> rb_reset b = b"
  by (cases b) (simp add: rb_reset_def)

lemma disconnect_again:
  assumes "torn_down t" "\<not> ssl t" "fd t = - 1" "proxy_htp t = None"
    "streams t = []" "dconns t = []"
  shows "disconnect env hard t = (0, t)"
proof -
  have "reset_members t = t"
    using assms by (simp add: reset_members_def torn_down_def rb_reset_empty)
  then show ?thesis
    using assms by (simp add: disconnect_unfold)
qed

text \<open>
  C9.  From every session state \<open>disconnect\<close> returns 0 and leaves the session torn
  down: the codec session is gone, both buffers are empty, the four timers and the
  two watchers are stopped, the four dispatch slots are \<open>H_noop\<close>, the
  connection-check state is \<open>CONNECTION_CHECK_NONE\<close> and the state is \<open>DISCONNECTED\<close>.
  A second \<open>disconnect\<close> right after the first returns 0 again and leaves the
  session torn down with the same buffers; when the upstream handlers attached no
  new downstream connection during the first, the second changes nothing at all.
\<close>

theorem disconnect_idempotent:
  "fst (disconnect env hard s) = 0
   \<and> torn_down (snd (disconnect env hard s))
   \<and> fst (disconnect env hard' (snd (disconnect env hard s))) = 0
   \<and> torn_down (snd (disconnect env hard' (snd (disconnect env hard s))))
   \<and> rb (snd (disconnect env hard' (snd (disconnect env hard s)))) = rb (snd (disconnect env hard s))
   \<and> wb (snd (disconnect env hard' (snd (disconnect env hard s)))) = wb (snd (disconnect env hard s))
   \<and> (dconns (snd (disconnect env hard s)) = [] \<longrightarrow>
        disconnect env hard' (snd (disconnect env hard s)) = (0, snd (disconnect env hard s)))"
proof -
  let ?t = "snd (disconnect env hard s)"
  let ?u = "snd (disconnect env hard' ?t)"
  have t: "torn_down ?t" by (rule disconnect_torn_down)
  have u: "torn_down ?u" by (rule disconnect_torn_down)
  have r: "registry_only (reset_members ?t) ?u"
    using disconnect_registry_only [of env hard' ?t] by simp
  have b: "rb ?u = rb ?t \<and> wb ?u = wb ?t"
    using r t by (simp add: registry_only_def reset_members_def torn_down_def rb_reset_empty)
  have again: "disconnect env hard' ?t = (0, ?t)" if "dconns ?t = []"
    using t disconnect_rest [of env hard s] disconnect_streams [of env hard s] that
    by (intro disconnect_again) simp_all
  show ?thesis
    using t u b again disconnect_registry_only [of env hard s]
      disconnect_registry_only [of env hard' ?t]
    by simp
qed

theorem disconnect_idempotent_witness:
  "dconns (snd (disconnect env0 True connected_session)) = []
   \<and> disconnect env0 False (snd (disconnect env0 True connected_session))
       = (0, snd (disconnect env0 True connected_session))
   \<and> state connected_session = CONNECTED
   \<and> state (snd (disconnect env0 True connected_session)) = DISCONNECTED
   \<and> contents (wb connected_session) = [1, 2, 3]
   \<and> contents (wb (snd (disconnect env0 True connected_session))) = []"
proof -
  have d: "dconns (snd (disconnect env0 True connected_session)) = []"
    by (simp add: disconnect_def Let_def connected_session_def Http2Session_new_def env0_def
          rb_reset_def handler_of_def notify_handler_def delete_stream_data_def)
  show ?thesis
    using d disconnect_idempotent [of env0 True connected_session False]
    by (simp add: torn_down_def) (simp add: connected_session_def Http2Session_new_def)
qed

subsection \<open>The read and write timers\<close>

lemma reset_flags_append: "reset_flags (xs @ ys) = reset_flags xs @ reset_flags ys"
  by (simp add: reset_flags_def map_filter_def)

lemma upcalls_detach: "upcalls (detach_stream_data d s) = upcalls s"
  by (simp add: detach_stream_data_def split: option.splits)

lemma upcalls_remove: "upcalls (remove_downstream_connection d s) = upcalls s"
  by (simp add: remove_downstream_connection_def upcalls_detach)

lemma upcalls_fold:
  assumes "\<And>x t. upcalls (f x t) = upcalls t"
  shows "upcalls (fold f xs s) = upcalls s"
  by (induction xs arbitrary: s) (simp_all add: assms)

lemma upcalls_reentry: "upcalls (apply_reentry r s) = upcalls s"
  by (cases r)
     (simp_all add: apply_reentry_def add_downstream_connection_def signal_write_def
        upcalls_remove)

lemma reset_flags_notify:
  "reset_flags (upcalls (notify_handler env hard known h s)) = reset_flags (upcalls s) @ [hard]"
proof -
  obtain rv cs where r: "on_downstream_reset env h hard = (rv, cs)"
    by (cases "on_downstream_reset env h hard")
  let ?s1 = "fold apply_reentry cs (s\<lparr>upcalls := upcalls s @ [OnDownstreamReset h hard]\<rparr>)"
  have a: "upcalls ?s1 = upcalls s @ [OnDownstreamReset h hard]"
    by (simp add: upcalls_fold [where f = apply_reentry, OF upcalls_reentry])
  have b: "upcalls (delete_handler known h ?s1) = upcalls ?s1 @ [DeleteHandler h]"
    by (simp add: delete_handler_def Let_def
          upcalls_fold [where f = remove_downstream_connection, OF upcalls_remove])
  show ?thesis
    using a b by (simp add: notify_handler_def r Let_def reset_flags_append)
                 (simp add: reset_flags_def map_filter_def)
qed

lemma reset_flags_notify_all:
  "reset_flags (upcalls (fold (notify_handler env hard known) hs s))
     = reset_flags (upcalls s) @ replicate (length hs) hard"
proof (induction hs arbitrary: s)
  case Nil
  show ?case by simp
next
  case (Cons h hs)
  show ?case
    by (simp add: Cons.IH reset_flags_notify replicate_append_same)
qed

lemma handler_of_reset_members: "handler_of (reset_members s) = handler_of s"
  by (rule ext) (simp add: handler_of_def reset_members_def)

lemma reset_flags_disconnect:
  "reset_flags (upcalls (snd (disconnect env hard s)))
     = reset_flags (upcalls s)
         @ replicate (length (remdups (List.map_filter (handler_of s) (dconns s)))) hard"
proof -
  have "upcalls (reset_members s) = upcalls s"
    by (simp add: reset_members_def)
  then show ?thesis
    by (simp add: disconnect_unfold reset_flags_notify_all handler_of_reset_members
          upcalls_fold [where f = delete_stream_data] delete_stream_data_def)
qed

text \<open>
  C6.  When the read timer or the write timer fires, \<open>timeoutcb\<close> calls \<open>disconnect\<close>
  with \<open>hard\<close> true exactly when the state at that moment is \<open>CONNECTING\<close>: the session
  it leaves is the one \<open>disconnect\<close> leaves for that argument, and every client
  handler of an attached downstream connection gets one \<^verbatim>\<open>on_downstream_reset\<close>
  call whose argument is true if the state was \<open>CONNECTING\<close> and false otherwise.
\<close>

theorem timeoutcb_hard_iff_connecting:
  "timeoutcb env s = snd (disconnect env (state s = CONNECTING) s)
   \<and> reset_flags (upcalls (timeoutcb env s))
       = reset_flags (upcalls s)
           @ replicate (length (remdups (List.map_filter (handler_of s) (dconns s))))
               (state s = CONNECTING)"
  by (simp add: timeoutcb_def get_state_def reset_flags_disconnect)

subsection \<open>The SETTINGS timer\<close>

lemma settings_timer_frame_send:
  "settings_timer (snd (on_frame_send_callback ng f s))
     = (settings_timer s \<or> (hd_type f = NGHTTP2_SETTINGS \<and> hd_flags f AND NGHTTP2_FLAG_ACK = 0))"
  by (auto simp: on_frame_send_callback_def put_downstream_def start_settings_timer_def
        NGHTTP2_SETTINGS_def NGHTTP2_DATA_def NGHTTP2_HEADERS_def
      split: option.splits prod.splits)

lemma settings_timer_sends:
  "\<forall>g \<in> set fs. \<not> (hd_type g = NGHTTP2_SETTINGS \<and> hd_flags g AND NGHTTP2_FLAG_ACK = 0)
   \<Longrightarrow> settings_timer (fold (\<lambda>g t. snd (on_frame_send_callback ng g t)) fs s) = settings_timer s"
  by (induction fs arbitrary: s) (auto simp: settings_timer_frame_send)

lemma frame_recv_settings:
  "hd_type f = NGHTTP2_SETTINGS \<Longrightarrow>
   on_frame_recv_callback ng env f s
     = Inr (0, if hd_flags f AND NGHTTP2_FLAG_ACK = 0 then s else s\<lparr>settings_timer := False\<rparr>)"
  by (simp add: on_frame_recv_callback_def stop_settings_timer_def
        NGHTTP2_SETTINGS_def NGHTTP2_DATA_def NGHTTP2_HEADERS_def NGHTTP2_RST_STREAM_def)

lemma settings_timeout_cb_eq:
  "session s = Some c \<Longrightarrow>
   settings_timeout_cb ng env s
     = Inr (if fst (nghttp2_session_terminate_session ng c NGHTTP2_SETTINGS_TIMEOUT) \<noteq> 0
            then snd (disconnect env False
                   (s\<lparr>settings_timer := False,
                      session := Some (snd (nghttp2_session_terminate_session ng c
                                              NGHTTP2_SETTINGS_TIMEOUT))\<rparr>))
            else s\<lparr>settings_timer := False,
                   session := Some (snd (nghttp2_session_terminate_session ng c
                                           NGHTTP2_SETTINGS_TIMEOUT)),
                   write_requested := True\<rparr>)"
  by (simp add: settings_timeout_cb_def terminate_session_def stop_settings_timer_def
        signal_write_def split: prod.splits)


text \<open>
  C4.  A frame that has been sent starts the SETTINGS timer exactly when it is a
  SETTINGS frame without the ACK flag: after \<open>on_frame_send_callback\<close> the timer is
  active if it was active before or the frame is such a frame, and frames of any
  other kind leave it as it was.  A received SETTINGS frame with the ACK flag stops
  the timer (one without the flag changes nothing).  When the timer fires on a
  session with a codec, \<open>settings_timeout_cb\<close> stops it and asks the codec to
  terminate the session with the error code \<open>NGHTTP2_SETTINGS_TIMEOUT\<close>; if the codec accepts,
  a write is requested, and if it refuses, the session is disconnected; either way
  the timer is stopped afterwards.  So after an ACK the timer stays stopped until
  the next SETTINGS frame without ACK is sent.
\<close>

theorem settings_timer_lifecycle:
  "settings_timer (snd (on_frame_send_callback ng f s))
     = (settings_timer s \<or> (hd_type f = NGHTTP2_SETTINGS \<and> hd_flags f AND NGHTTP2_FLAG_ACK = 0))
   \<and> ((\<forall>g \<in> set fs. \<not> (hd_type g = NGHTTP2_SETTINGS \<and> hd_flags g AND NGHTTP2_FLAG_ACK = 0))
        \<longrightarrow> settings_timer (fold (\<lambda>g t. snd (on_frame_send_callback ng g t)) fs s)
              = settings_timer s)
   \<and> (hd_type f = NGHTTP2_SETTINGS \<longrightarrow>
        on_frame_recv_callback ng env f s
          = Inr (0, if hd_flags f AND NGHTTP2_FLAG_ACK = 0 then s
                    else s\<lparr>settings_timer := False\<rparr>))
   \<and> (session s = Some c \<longrightarrow>
        settings_timeout_cb ng env s
          = Inr (if fst (nghttp2_session_terminate_session ng c NGHTTP2_SETTINGS_TIMEOUT) \<noteq> 0
                 then snd (disconnect env False
                        (s\<lparr>settings_timer := False,
                           session := Some (snd (nghttp2_session_terminate_session ng c
                                                   NGHTTP2_SETTINGS_TIMEOUT))\<rparr>))
                 else s\<lparr>settings_timer := False,
                        session := Some (snd (nghttp2_session_terminate_session ng c
                                                NGHTTP2_SETTINGS_TIMEOUT)),
                        write_requested := True\<rparr>)
        \<and> (case settings_timeout_cb ng env s of
             Inl a \<Rightarrow> False
           | Inr t \<Rightarrow> \<not> settings_timer t))"
proof -
  have "\<not> settings_timer (snd (disconnect env False t))" for t :: "'a Http2Session"
    using disconnect_torn_down [of env False t] by (simp add: torn_down_def)
  then show ?thesis
    using settings_timer_frame_send [of ng f s] settings_timer_sends [of fs ng s]
      frame_recv_settings [of f ng env s] settings_timeout_cb_eq [of s c ng env]
    by auto
qed



theorem settings_timer_lifecycle_witness:
  "\<not> settings_timer (connected_session\<lparr>settings_timer := False\<rparr>)
   \<and> settings_timer (snd (on_frame_send_callback scripted (settings_frame 0)
                             (connected_session\<lparr>settings_timer := False\<rparr>)))
   \<and> settings_timer connected_session
   \<and> on_frame_recv_callback scripted env0 (settings_frame 1) connected_session
       = Inr (0, connected_session\<lparr>settings_timer := False\<rparr>)
   \<and> settings_timer
        (fold (\<lambda>g t. snd (on_frame_send_callback scripted g t)) [settings_frame 1]
           (connected_session\<lparr>settings_timer := False\<rparr>)) = False
   \<and> (case settings_timeout_cb scripted env0 connected_session of
         Inl a \<Rightarrow> False
       | Inr t \<Rightarrow> \<not> settings_timer t \<and> write_requested t
           \<and> map_option calls (session t) = Some [CallTerminate NGHTTP2_SETTINGS_TIMEOUT])"
  using settings_timer_lifecycle [of scripted "settings_frame 0"
          "connected_session\<lparr>settings_timer := False\<rparr>" "[settings_frame 1]" env0 fresh_codec]
    settings_timer_lifecycle [of scripted "settings_frame 1" connected_session "[]" env0
          "fresh_codec\<lparr>user_data := [(1, 10)]\<rparr>"]
  by (simp add: settings_frame_def NGHTTP2_FLAG_ACK_def)
     (simp add: connected_session_def Http2Session_new_def scripted_def fresh_codec_def)


subsection \<open>The answer of the proxy\<close>

lemma htp_hdrs_completecb_eq:
  "htp_hdrs_completecb htp s
     = (0, s\<lparr>state := (if status_code htp = 200 then PROXY_CONNECTED else PROXY_FAILED)\<rparr>)"
  by (simp add: htp_hdrs_completecb_def set_state_def)

lemma fold_hdrs_complete_state:
  "\<exists>st. fold (\<lambda>p t. snd (htp_hdrs_completecb p t)) ps s = s\<lparr>state := st\<rparr>"
proof (induction ps arbitrary: s)
  case Nil
  have "s = s\<lparr>state := state s\<rparr>" by simp
  then show ?case by (metis fold_simps(1))
next
  case (Cons p ps)
  obtain st where
    "fold (\<lambda>p t. snd (htp_hdrs_completecb p t)) ps (snd (htp_hdrs_completecb p s))
       = (snd (htp_hdrs_completecb p s))\<lparr>state := st\<rparr>"
    using Cons.IH by blast
  then show ?case
    by (auto simp: htp_hdrs_completecb_eq)
qed

lemma fold_hdrs_complete_last:
  "fold (\<lambda>p t. snd (htp_hdrs_completecb p t)) (ps @ [h]) s
     = s\<lparr>state := (if status_code h = 200 then PROXY_CONNECTED else PROXY_FAILED)\<rparr>"
proof -
  obtain st where "fold (\<lambda>p t. snd (htp_hdrs_completecb p t)) ps s = s\<lparr>state := st\<rparr>"
    using fold_hdrs_complete_state by blast
  then show ?thesis
    by (simp add: htp_hdrs_completecb_eq)
qed


text \<open>
  C5.  The headers-complete callback of the tunnel parser sets the state to
  \<open>PROXY_CONNECTED\<close> if the status code of the parsed response is 200 and to
  \<open>PROXY_FAILED\<close> for every other status code.  On the read path: when \<^verbatim>\<open>rb_\<close> holds
  bytes and the parser reads a response from them without an error (the callback
  ran, last for a response with the status of \<open>h\<close>), then for status 200
  \<open>downstream_read_proxy\<close> calls \<open>initiate_connection\<close> in the state \<open>PROXY_CONNECTED\<close>
  (and fails if that fails, and goes on reading otherwise), and for every other
  status it returns \<open>-1\<close> in the state \<open>PROXY_FAILED\<close>.
\<close>

theorem proxy_response_classification:
  "htp_hdrs_completecb h s
     = (0, s\<lparr>state := (if status_code h = 200 then PROXY_CONNECTED else PROXY_FAILED)\<rparr>)
   \<and> (rb_get (rb s) \<noteq> [] \<and> proxy_htp s = Some htp
        \<and> http_parser_execute env htp (rb_get (rb s)) = (nread, fired @ [h], htp')
        \<and> http_errno htp' = HPE_OK
      \<longrightarrow> downstream_read_proxy (Suc n) ng env s
            = (if status_code h = 200 then
                 (case initiate_connection ng env
                         (s\<lparr>state := PROXY_CONNECTED, proxy_htp := Some htp',
                            rb := rb_drain (rb s) nread\<rparr>) of
                    Inl a \<Rightarrow> Some (Inl a)
                  | Inr (rv, s3) \<Rightarrow>
                      if rv \<noteq> 0 then Some (Inr (- 1, s3))
                      else downstream_read_proxy n ng env s3)
               else Some (Inr (- 1, s\<lparr>state := PROXY_FAILED, proxy_htp := Some htp',
                                      rb := rb_drain (rb s) nread\<rparr>))))"
proof (intro conjI impI)
  show "htp_hdrs_completecb h s
     = (0, s\<lparr>state := (if status_code h = 200 then PROXY_CONNECTED else PROXY_FAILED)\<rparr>)"
    by (rule htp_hdrs_completecb_eq)
next
  assume a: "rb_get (rb s) \<noteq> [] \<and> proxy_htp s = Some htp
        \<and> http_parser_execute env htp (rb_get (rb s)) = (nread, fired @ [h], htp')
        \<and> http_errno htp' = HPE_OK"
  show "downstream_read_proxy (Suc n) ng env s
            = (if status_code h = 200 then
                 (case initiate_connection ng env
                         (s\<lparr>state := PROXY_CONNECTED, proxy_htp := Some htp',
                            rb := rb_drain (rb s) nread\<rparr>) of
                    Inl a \<Rightarrow> Some (Inl a)
                  | Inr (rv, s3) \<Rightarrow>
                      if rv \<noteq> 0 then Some (Inr (- 1, s3))
                      else downstream_read_proxy n ng env s3)
               else Some (Inr (- 1, s\<lparr>state := PROXY_FAILED, proxy_htp := Some htp',
                                      rb := rb_drain (rb s) nread\<rparr>)))"
    using a by (simp add: fold_hdrs_complete_last Let_def del: fold_append)
qed


theorem proxy_response_classification_witness:
  "(case downstream_read_proxy (Suc (Suc 0)) scripted env0 proxy_session of
      Some (Inr (rv, t)) \<Rightarrow> rv = 0 \<and> state t = CONNECTING \<and> ssl t
    | _ \<Rightarrow> False)
   \<and> (case downstream_read_proxy (Suc (Suc 0)) scripted env407 proxy_session of
        Some (Inr (rv, t)) \<Rightarrow> rv = - 1 \<and> state t = PROXY_FAILED
      | _ \<Rightarrow> False)"
  using proxy_response_classification
          [where s = proxy_session and env = env0 and ng = scripted and n = "Suc 0"
             and htp = "\<lparr>status_code = 0, http_errno = 0, parser_state = 0\<rparr>"
             and nread = 4 and fired = "[]"
             and h = "\<lparr>status_code = 200, http_errno = 0, parser_state = 0\<rparr>"
             and htp' = "\<lparr>status_code = 200, http_errno = 0, parser_state = 0\<rparr>"]
    proxy_response_classification
          [where s = proxy_session and env = env407 and ng = scripted and n = "Suc 0"
             and htp = "\<lparr>status_code = 0, http_errno = 0, parser_state = 0\<rparr>"
             and nread = 4 and fired = "[]"
             and h = "\<lparr>status_code = 407, http_errno = 0, parser_state = 0\<rparr>"
             and htp' = "\<lparr>status_code = 407, http_errno = 0, parser_state = 0\<rparr>"]
  by (simp add: proxy_session_def Http2Session_new_def env0_def env407_def rb_get_def
        rb_drain_def HPE_OK_def initiate_connection_def install_handlers_def Let_def)


subsection \<open>A bad content-length in a response\<close>

text \<open>
  C8, as the claim states it, fails.  On the response stream of \<open>with_response
  response0\<close> a first header \<open>x\<close> with 32768 bytes of value is accepted and brings the
  response header block to 32769 bytes, beyond \<open>MAX_HEADERS_SUM\<close>.  A \<open>content-length\<close>
  header with the value \<open>abc\<close>, which \<open>parse_uint\<close> rejects, then makes the callback
  report the temporal failure, but no \<^verbatim>\<open>RST_STREAM\<close> is submitted and the response
  state stays \<open>INITIAL\<close>: the session is unchanged.
\<close>

theorem oversized_block_content_length_counterexample:
  "on_header_callback scripted env0 response_headers_frame [0x78] (replicate 32768 0x61) 0
       (with_response response0)
     = Inr (0, with_response after_big_header)
   \<and> stream_downstream scripted (with_response after_big_header)
       (hd_stream_id response_headers_frame)
     = Some (20, \<lparr>client_handler = Some 30, downstream = Some after_big_header,
                   stream_data = Some 10\<rparr>,
             after_big_header)
   \<and> lookup_token env0 content_length_name = HD_CONTENT_LENGTH env0
   \<and> parse_uint env0 [0x61, 0x62, 0x63] = - 1
   \<and> on_header_callback scripted env0 response_headers_frame content_length_name
         [0x61, 0x62, 0x63] 0 (with_response after_big_header)
       = Inr (NGHTTP2_ERR_TEMPORAL_CALLBACK_FAILURE, with_response after_big_header)
   \<and> map_option calls (session (with_response after_big_header)) = Some []
   \<and> response_state after_big_header = INITIAL"
  by (simp add: on_header_callback_def stream_downstream_def with_response_def
        connected_session_def Http2Session_new_def scripted_def fresh_codec_def env0_def
        response0_def after_big_header_def response_headers_frame_def util_parse_uint_def
        NGHTTP2_HEADERS_def content_length_name_def put_downstream_def
        add_response_header_def begins_with_colon_def NGHTTP2_NV_FLAG_NO_INDEX_def Let_def)

text \<open>
  C8, amended.  In the state \<open>CONNECTED\<close>, for a HEADERS frame of a response (its
  category is \<open>NGHTTP2_HCAT_RESPONSE\<close>, or the downstream expects a final response) on
  a stream with a known downstream, whose response header block is within
  \<open>MAX_HEADERS_SUM\<close>, and a header that passes \<open>check_nv\<close>, has the token of
  \<open>content-length\<close> and passes the pseudo-header and allowed-header tests: if
  \<open>parse_uint\<close> rejects the value, or the response content length is already set,
  then \<^verbatim>\<open>RST_STREAM\<close> with \<open>NGHTTP2_PROTOCOL_ERROR\<close> is submitted for the stream, the
  response state becomes \<open>MSG_BAD_HEADER\<close>, the callback returns
  \<open>NGHTTP2_ERR_TEMPORAL_CALLBACK_FAILURE\<close>, and nothing else changes: the header is
  not added to the response.
\<close>

theorem bad_content_length_resets_stream:
  assumes "state s = CONNECTED" and "session s = Some c"
    and "stream_downstream ng s (hd_stream_id f) = Some (d, dc, ds)"
    and "hd_type f = NGHTTP2_HEADERS"
    and "headers_cat f = NGHTTP2_HCAT_RESPONSE \<or> expect_final_response ds"
    and "response_headers_sum ds \<le> MAX_HEADERS_SUM env"
    and "check_nv env name val"
    and "lookup_token env name = HD_CONTENT_LENGTH env"
    and "begins_with_colon name \<longrightarrow> response_pseudo_header_allowed env ds (HD_CONTENT_LENGTH env)"
    and "http2_header_allowed env (HD_CONTENT_LENGTH env)"
    and "parse_uint env val = - 1 \<or> response_content_length ds \<noteq> - 1"
  shows "on_header_callback ng env f name val flags s
           = Inr (NGHTTP2_ERR_TEMPORAL_CALLBACK_FAILURE,
                  s\<lparr>session := Some (snd (nghttp2_submit_rst_stream ng c (hd_stream_id f)
                                             NGHTTP2_PROTOCOL_ERROR)),
                    dconn_heap := (dconn_heap s)(d \<mapsto>
                       dc\<lparr>downstream := Some (ds\<lparr>response_state := MSG_BAD_HEADER\<rparr>)\<rparr>)\<rparr>)"
  using assms
  by (auto simp: on_header_callback_def submit_rst_stream_def put_downstream_def Let_def
      split: prod.splits)


theorem bad_content_length_resets_stream_witness:
  "on_header_callback scripted env0 response_headers_frame content_length_name
       [0x61, 0x62, 0x63] 0 (with_response response0)
     = Inr (NGHTTP2_ERR_TEMPORAL_CALLBACK_FAILURE,
            (with_response (response0\<lparr>response_state := MSG_BAD_HEADER\<rparr>))
              \<lparr>session := Some (fresh_codec\<lparr>calls := [CallRstStream 1 NGHTTP2_PROTOCOL_ERROR],
                                             user_data := [(1, 10)]\<rparr>)\<rparr>)
   \<and> on_header_callback scripted env0 response_headers_frame content_length_name
       [0x31, 0x32] 0 (with_response (response0\<lparr>response_content_length := 7\<rparr>))
     = Inr (NGHTTP2_ERR_TEMPORAL_CALLBACK_FAILURE,
            (with_response (response0\<lparr>response_content_length := 7,
                                       response_state := MSG_BAD_HEADER\<rparr>))
              \<lparr>session := Some (fresh_codec\<lparr>calls := [CallRstStream 1 NGHTTP2_PROTOCOL_ERROR],
                                             user_data := [(1, 10)]\<rparr>)\<rparr>)"
  using bad_content_length_resets_stream
          [where s = "with_response response0" and ng = scripted and env = env0
             and f = response_headers_frame and name = content_length_name
             and val = "[0x61, 0x62, 0x63]" and flags = 0
             and c = "fresh_codec\<lparr>user_data := [(1, 10)]\<rparr>" and d = 20
             and dc = "\<lparr>client_handler = Some 30, downstream = Some response0,
                        stream_data = Some 10\<rparr>"
             and ds = response0]
    bad_content_length_resets_stream
          [where s = "with_response (response0\<lparr>response_content_length := 7\<rparr>)"
             and ng = scripted and env = env0
             and f = response_headers_frame and name = content_length_name
             and val = "[0x31, 0x32]" and flags = 0
             and c = "fresh_codec\<lparr>user_data := [(1, 10)]\<rparr>" and d = 20
             and dc = "\<lparr>client_handler = Some 30,
                        downstream = Some (response0\<lparr>response_content_length := 7\<rparr>),
                        stream_data = Some 10\<rparr>"
             and ds = "response0\<lparr>response_content_length := 7\<rparr>"]
  by (simp add: stream_downstream_def with_response_def connected_session_def
        Http2Session_new_def scripted_def fresh_codec_def env0_def response0_def
        response_headers_frame_def util_parse_uint_def begins_with_colon_def
        content_length_name_def)

subsection \<open>Conservation of the bytes the codec produces\<close>

lemma conserves_refl: "conserves s s"
  by (simp add: conserves_def)

lemma conserves_trans:
  assumes "conserves s t" "conserves t u"
  shows "conserves s u"
proof -
  obtain n1 e1 where 1: "mem_send_log t = mem_send_log s @ n1"
    "contents (wb t) = contents (wb s) @ e1"
    "e1 @ pending_bytes t = pending_bytes s @ concat n1"
    "capacity (wb t) = capacity (wb s)"
    using assms(1) by (auto simp: conserves_def)
  obtain n2 e2 where 2: "mem_send_log u = mem_send_log t @ n2"
    "contents (wb u) = contents (wb t) @ e2"
    "e2 @ pending_bytes u = pending_bytes t @ concat n2"
    "capacity (wb u) = capacity (wb t)"
    using assms(2) by (auto simp: conserves_def)
  have "(e1 @ e2) @ pending_bytes u = pending_bytes s @ concat (n1 @ n2)"
    using 1(3) 2(3) by (metis append.assoc concat_append)
  then show ?thesis
    unfolding conserves_def using 1 2
    by (intro exI [of _ "n1 @ n2"] exI [of _ "e1 @ e2"]) simp
qed

lemma flush_pending_conserves:
  "flush_pending s = e \<Longrightarrow> end_state e = Some t \<Longrightarrow> conserves s t"
  by (auto simp: flush_pending_def conserves_def pending_bytes_def data_pendinglen_def
        rb_write_def Let_def min_def
      split: option.splits if_splits)

lemma flush_pending_session:
  "flush_pending s = e \<Longrightarrow> end_state e = Some t \<Longrightarrow> session t = session s"
  by (auto simp: flush_pending_def Let_def split: option.splits if_splits)

lemma flush_pending_never: "flush_pending s \<noteq> ReturnedError t \<and> flush_pending s \<noteq> Aborted a"
  by (auto simp: flush_pending_def Let_def split: option.splits if_splits)

lemma flush_pending_full:
  "flush_pending s = ReturnedOk t \<Longrightarrow> capacity (wb s) \<le> rleft (wb t)"
  by (auto simp: flush_pending_def data_pendinglen_def rb_write_def Let_def min_def
        rleft_def wleft_def
      split: option.splits if_splits)

lemma write_loop_conserves:
  "end_state (downstream_write_loop ng s) = Some t \<Longrightarrow> data_pending s = None
   \<Longrightarrow> conserves s t"
proof (induction ng s rule: downstream_write_loop.induct)
  case (1 ng s)
  show ?case
  proof (cases "session s")
    case None
    with "1.prems" show ?thesis
      by (simp add: downstream_write_loop.simps [of ng s])
  next
    case (Some c)
    show ?thesis
    proof (cases "fst (nghttp2_session_mem_send ng c)")
      case (SendError e)
      with Some "1.prems" show ?thesis
        by (auto simp: downstream_write_loop.simps [of ng s] conserves_def pending_bytes_def)
    next
      case (SendData d)
      let ?s2 = "s\<lparr>session := Some (snd (nghttp2_session_mem_send ng c)),
                    mem_send_log := mem_send_log s @ [d],
                    wb := snd (rb_write (wb s) d (length d))\<rparr>"
      show ?thesis
      proof (cases "length d = 0 \<or> fst (rb_write (wb s) d (length d)) < length d")
        case True
        with Some SendData "1.prems" show ?thesis
          by (auto simp: downstream_write_loop.simps [of ng s] conserves_def pending_bytes_def
                rb_write_def Let_def min_def split: if_splits)
      next
        case False
        then have run: "downstream_write_loop ng s = downstream_write_loop ng ?s2"
          using Some SendData by (simp add: downstream_write_loop.simps [of ng s])
        have a: "conserves s ?s2"
          using False "1.prems"(2)
          by (auto simp: conserves_def pending_bytes_def rb_write_def Let_def min_def
              split: if_splits)
        have b: "conserves ?s2 t"
          using "1.IH" [OF Some SendData] False run "1.prems" by simp
        show ?thesis using a b by (rule conserves_trans)
      qed
    qed
  qed
qed

lemma write_body_conserves:
  assumes "end_state (downstream_write_body ng s) = Some t"
  shows "conserves s t"
proof (cases "flush_pending s")
  case (Aborted a)
  then show ?thesis using flush_pending_never [of s] by simp
next
  case (ReturnedError u)
  then show ?thesis using flush_pending_never [of s] by simp
next
  case (ReturnedOk u)
  then show ?thesis
    using assms flush_pending_conserves [of s "ReturnedOk u" u]
    by (simp add: downstream_write_body_def)
next
  case (Broke u)
  have a: "conserves s u"
    using Broke flush_pending_conserves [of s "Broke u" u] by simp
  have "data_pending u = None"
    using Broke by (auto simp: flush_pending_def Let_def split: option.splits if_splits)
  then have "conserves u t"
    using assms Broke write_loop_conserves [of ng u t]
    by (simp add: downstream_write_body_def)
  with a show ?thesis by (rule conserves_trans)
qed

lemma downstream_write_end:
  "downstream_write ng s = Inr (rv, t) \<Longrightarrow> end_state (downstream_write_body ng s) = Some t"
  by (auto simp: downstream_write_def split: loop_end.splits option.splits if_splits)

lemma write_pending_overflow:
  assumes "data_pending s = Some p" "wleft (wb s) < length p"
  shows "downstream_write ng s
           = Inr (0, s\<lparr>wb := (wb s)\<lparr>contents := contents (wb s) @ take (wleft (wb s)) p\<rparr>,
                        data_pending := Some (drop (wleft (wb s)) p)\<rparr>)"
  using assms
  by (simp add: downstream_write_def downstream_write_body_def flush_pending_def
        data_pendinglen_def rb_write_def Let_def min_def)

lemma write_block_overflow:
  assumes "data_pending s = None" "session s = Some c"
    "nghttp2_session_mem_send ng c = (SendData d, c')" "wleft (wb s) < length d"
  shows "downstream_write ng s
           = Inr (0, s\<lparr>session := Some c', mem_send_log := mem_send_log s @ [d],
                        wb := (wb s)\<lparr>contents := contents (wb s) @ take (wleft (wb s)) d\<rparr>,
                        data_pending := Some (drop (wleft (wb s)) d)\<rparr>)"
proof -
  have "d \<noteq> []" using assms(4) by auto
  then show ?thesis
    using assms
    by (simp add: downstream_write_def downstream_write_body_def flush_pending_def
          downstream_write_loop.simps [of ng s] rb_write_def Let_def min_def)
qed

lemma write_pending_first:
  assumes "data_pending s = Some p" "length p \<le> wleft (wb s)"
    "downstream_write ng s = Inr (rv, t)"
  shows "\<exists>rest. contents (wb t) = contents (wb s) @ p @ rest"
proof -
  let ?u = "s\<lparr>wb := (wb s)\<lparr>contents := contents (wb s) @ p\<rparr>, data_pending := None\<rparr>"
  have f: "flush_pending s = Broke ?u"
    using assms(1,2)
    by (simp add: flush_pending_def data_pendinglen_def rb_write_def Let_def min_def)
  have "end_state (downstream_write_loop ng ?u) = Some t"
    using downstream_write_end [OF assms(3)] f by (simp add: downstream_write_body_def)
  then have "conserves ?u t"
    by (rule write_loop_conserves) simp
  then show ?thesis
    by (auto simp: conserves_def)
qed


lemmas fixture_defs =
  small_session_def after_first_pass_def quiet_session_def connected_session_def
  tunnelled_session_def Http2Session_new_def scripted_def fresh_codec_def

text \<open>
  C3.  A write pass loses, repeats and reorders nothing.  Whenever
  \<open>downstream_write\<close> returns (also with \<open>-1\<close>), the bytes of \<^verbatim>\<open>wb_\<close> followed by the
  pending data are what they were before the pass, followed by the blocks the
  codec produced during the pass, in the order it produced them; \<^verbatim>\<open>wb_\<close> has only
  grown at its end.  If pending data do not fit into \<^verbatim>\<open>wb_\<close>, the part that fits is
  appended, the rest stays pending and the codec is not asked for more.  If they
  fit, they stand in \<^verbatim>\<open>wb_\<close> before everything this pass adds.  If the first block
  the codec produces does not fit, the part that fits is appended and the rest
  becomes the pending data.
\<close>

theorem downstream_write_conserves_bytes:
  "(downstream_write ng s = Inr (rv, t) \<longrightarrow>
      (\<exists>new extra.
         mem_send_log t = mem_send_log s @ new
         \<and> contents (wb t) = contents (wb s) @ extra
         \<and> extra @ pending_bytes t = pending_bytes s @ concat new))
   \<and> (data_pending s = Some p \<and> wleft (wb s) < length p \<longrightarrow>
        downstream_write ng s
          = Inr (0, s\<lparr>wb := (wb s)\<lparr>contents := contents (wb s) @ take (wleft (wb s)) p\<rparr>,
                       data_pending := Some (drop (wleft (wb s)) p)\<rparr>))
   \<and> (data_pending s = Some p \<and> length p \<le> wleft (wb s)
        \<and> downstream_write ng s = Inr (rv, t) \<longrightarrow>
        (\<exists>rest. contents (wb t) = contents (wb s) @ p @ rest))
   \<and> (data_pending s = None \<and> session s = Some c
        \<and> nghttp2_session_mem_send ng c = (SendData d, c') \<and> wleft (wb s) < length d \<longrightarrow>
        downstream_write ng s
          = Inr (0, s\<lparr>session := Some c', mem_send_log := mem_send_log s @ [d],
                       wb := (wb s)\<lparr>contents := contents (wb s) @ take (wleft (wb s)) d\<rparr>,
                       data_pending := Some (drop (wleft (wb s)) d)\<rparr>))"
proof (intro conjI impI)
  assume "downstream_write ng s = Inr (rv, t)"
  then have "conserves s t"
    by (intro write_body_conserves downstream_write_end)
  then show "\<exists>new extra.
         mem_send_log t = mem_send_log s @ new
         \<and> contents (wb t) = contents (wb s) @ extra
         \<and> extra @ pending_bytes t = pending_bytes s @ concat new"
    by (auto simp: conserves_def)
next
  assume "data_pending s = Some p \<and> wleft (wb s) < length p"
  then show "downstream_write ng s
          = Inr (0, s\<lparr>wb := (wb s)\<lparr>contents := contents (wb s) @ take (wleft (wb s)) p\<rparr>,
                       data_pending := Some (drop (wleft (wb s)) p)\<rparr>)"
    by (simp add: write_pending_overflow)
next
  assume "data_pending s = Some p \<and> length p \<le> wleft (wb s)
        \<and> downstream_write ng s = Inr (rv, t)"
  then show "\<exists>rest. contents (wb t) = contents (wb s) @ p @ rest"
    by (auto intro: write_pending_first)
next
  assume "data_pending s = None \<and> session s = Some c
        \<and> nghttp2_session_mem_send ng c = (SendData d, c') \<and> wleft (wb s) < length d"
  then show "downstream_write ng s
          = Inr (0, s\<lparr>session := Some c', mem_send_log := mem_send_log s @ [d],
                       wb := (wb s)\<lparr>contents := contents (wb s) @ take (wleft (wb s)) d\<rparr>,
                       data_pending := Some (drop (wleft (wb s)) d)\<rparr>)"
    by (simp add: write_block_overflow)
qed

lemma first_pass: "downstream_write scripted small_session = Inr (0, after_first_pass)"
  by (simp add: downstream_write_def downstream_write_body_def flush_pending_def
        downstream_write_loop.simps rb_write_def wleft_def Let_def fixture_defs)

theorem downstream_write_conserves_bytes_witness:
  "downstream_write scripted small_session = Inr (0, after_first_pass)
   \<and> contents (wb after_first_pass) @ pending_bytes after_first_pass = [1, 2, 3, 4, 5, 6]
   \<and> downstream_write scripted after_first_pass = Inr (0, after_first_pass)
   \<and> downstream_write scripted (after_first_pass\<lparr>wb := rb_drain (wb after_first_pass) 2\<rparr>)
       = Inr (0, after_first_pass\<lparr>wb := \<lparr>capacity = 4, contents = [3, 4, 5, 6]\<rparr>,
                                   data_pending := None, mem_send_log := [[1, 2, 3], [4, 5, 6], []]\<rparr>)"
proof -
  have a: "downstream_write scripted small_session = Inr (0, after_first_pass)"
    by (rule first_pass)
  have b: "downstream_write scripted after_first_pass = Inr (0, after_first_pass)"
    using downstream_write_conserves_bytes
            [of scripted after_first_pass 0 after_first_pass "[5, 6]"]
    by (simp add: wleft_def after_first_pass_def small_session_def Http2Session_new_def)
  have c: "downstream_write scripted (after_first_pass\<lparr>wb := rb_drain (wb after_first_pass) 2\<rparr>)
       = Inr (0, after_first_pass\<lparr>wb := \<lparr>capacity = 4, contents = [3, 4, 5, 6]\<rparr>,
                                   data_pending := None, mem_send_log := [[1, 2, 3], [4, 5, 6], []]\<rparr>)"
    by (simp add: downstream_write_def downstream_write_body_def flush_pending_def
          downstream_write_loop.simps rb_write_def rb_drain_def wleft_def rleft_def Let_def
          data_pendinglen_def nothing_to_do_def fixture_defs)
  have d: "contents (wb after_first_pass) @ pending_bytes after_first_pass = [1, 2, 3, 4, 5, 6]"
    using a downstream_write_conserves_bytes [of scripted small_session 0 after_first_pass]
    by (simp add: pending_bytes_def after_first_pass_def)
  show ?thesis using a b c d by simp
qed


subsection \<open>A session with nothing left to do\<close>

lemma write_loop_full:
  "downstream_write_loop ng s = ReturnedOk t \<Longrightarrow> capacity (wb s) \<le> rleft (wb t)"
proof (induction ng s rule: downstream_write_loop.induct)
  case (1 ng s)
  show ?case
  proof (cases "session s")
    case None
    with "1.prems" show ?thesis
      by (simp add: downstream_write_loop.simps [of ng s])
  next
    case (Some c)
    show ?thesis
    proof (cases "fst (nghttp2_session_mem_send ng c)")
      case (SendError e)
      with Some "1.prems" show ?thesis
        by (simp add: downstream_write_loop.simps [of ng s])
    next
      case (SendData d)
      let ?s2 = "s\<lparr>session := Some (snd (nghttp2_session_mem_send ng c)),
                    mem_send_log := mem_send_log s @ [d],
                    wb := snd (rb_write (wb s) d (length d))\<rparr>"
      show ?thesis
      proof (cases "length d = 0 \<or> fst (rb_write (wb s) d (length d)) < length d")
        case True
        with Some SendData "1.prems" show ?thesis
          by (auto simp: downstream_write_loop.simps [of ng s] rb_write_def Let_def min_def
                rleft_def wleft_def split: if_splits)
      next
        case False
        then have run: "downstream_write_loop ng s = downstream_write_loop ng ?s2"
          using Some SendData by (simp add: downstream_write_loop.simps [of ng s])
        have "capacity (wb ?s2) \<le> rleft (wb t)"
          using "1.IH" [OF Some SendData] False run "1.prems" by simp
        then show ?thesis
          by (simp add: rb_write_def Let_def)
      qed
    qed
  qed
qed

lemma write_loop_session:
  "end_state (downstream_write_loop ng s) = Some t \<Longrightarrow> session t \<noteq> None"
proof (induction ng s rule: downstream_write_loop.induct)
  case (1 ng s)
  show ?case
  proof (cases "session s")
    case None
    with "1.prems" show ?thesis
      by (simp add: downstream_write_loop.simps [of ng s])
  next
    case (Some c)
    show ?thesis
    proof (cases "fst (nghttp2_session_mem_send ng c)")
      case (SendError e)
      with Some "1.prems" show ?thesis
        by (auto simp: downstream_write_loop.simps [of ng s])
    next
      case (SendData d)
      show ?thesis
      proof (cases "length d = 0 \<or> fst (rb_write (wb s) d (length d)) < length d")
        case True
        with Some SendData "1.prems" show ?thesis
          by (auto simp: downstream_write_loop.simps [of ng s] split: if_splits)
      next
        case False
        with Some SendData "1.prems" "1.IH" [OF Some SendData] show ?thesis
          by (simp add: downstream_write_loop.simps [of ng s])
      qed
    qed
  qed
qed

lemma read_loop_not_ok: "downstream_read_loop ng s \<noteq> ReturnedOk t"
proof (induction ng s rule: downstream_read_loop.induct)
  case (1 ng s)
  show ?case
  proof (cases "length (rb_get (rb s)) = 0")
    case True
    then show ?thesis by (simp add: downstream_read_loop.simps [of ng s])
  next
    case False
    show ?thesis
    proof (cases "session s")
      case None
      with False show ?thesis by (simp add: downstream_read_loop.simps [of ng s])
    next
      case (Some c)
      show ?thesis
      proof (cases "fst (nghttp2_session_mem_recv ng c (rb_get (rb s))) < 0")
        case True
        with False Some show ?thesis by (simp add: downstream_read_loop.simps [of ng s])
      next
        case neg: False
        with False Some "1.IH" [OF False Some neg] show ?thesis
          by (simp add: downstream_read_loop.simps [of ng s])
      qed
    qed
  qed
qed

lemma write_body_full:
  assumes "downstream_write_body ng s = ReturnedOk t"
  shows "capacity (wb s) \<le> rleft (wb t)"
proof (cases "flush_pending s")
  case (Aborted a)
  then show ?thesis using assms by (simp add: downstream_write_body_def)
next
  case (ReturnedError u)
  then show ?thesis using assms by (simp add: downstream_write_body_def)
next
  case (ReturnedOk u)
  then show ?thesis
    using assms flush_pending_full [of s u] by (simp add: downstream_write_body_def)
next
  case (Broke u)
  then have "conserves s u"
    using flush_pending_conserves [of s "Broke u" u] by simp
  then have "capacity (wb u) = capacity (wb s)" by (auto simp: conserves_def)
  then show ?thesis
    using assms Broke write_loop_full [of ng u t] by (simp add: downstream_write_body_def)
qed

lemma write_body_session:
  assumes "end_state (downstream_write_body ng s) = Some t" "session s \<noteq> None"
  shows "session t \<noteq> None"
proof (cases "flush_pending s")
  case (Aborted a)
  then show ?thesis using assms by (simp add: downstream_write_body_def)
next
  case (ReturnedError u)
  then show ?thesis using flush_pending_never [of s] by simp
next
  case (ReturnedOk u)
  then show ?thesis
    using assms flush_pending_session [of s "ReturnedOk u" u]
    by (simp add: downstream_write_body_def)
next
  case (Broke u)
  then show ?thesis
    using assms write_loop_session [of ng u t] by (simp add: downstream_write_body_def)
qed

lemma downstream_read_quiescent:
  assumes "\<forall>u. downstream_read_loop ng s \<noteq> ReturnedError u"
    and "downstream_read ng s = Inr (rv, t)"
  shows "\<exists>c. session t = Some c \<and> rv = (if nothing_to_do ng c t then - 1 else 0)"
  using assms read_loop_not_ok [of ng s]
  by (cases "downstream_read_loop ng s")
     (auto simp: downstream_read_def nothing_to_do_def signal_write_def
        split: option.splits if_splits)

lemma downstream_write_quiescent:
  assumes "session s \<noteq> None" and "0 < capacity (wb s)"
    and "\<forall>u. downstream_write_body ng s \<noteq> ReturnedError u"
    and "downstream_write ng s = Inr (rv, t)"
  shows "\<exists>c. session t = Some c \<and> rv = (if nothing_to_do ng c t then - 1 else 0)"
proof (cases "downstream_write_body ng s")
  case (Aborted a)
  then show ?thesis using assms(4) by (simp add: downstream_write_def)
next
  case (ReturnedError u)
  then show ?thesis using assms(3) by simp
next
  case (ReturnedOk u)
  then have tu: "t = u" "rv = 0" using assms(4) by (auto simp: downstream_write_def)
  have "capacity (wb s) \<le> rleft (wb u)" using ReturnedOk by (rule write_body_full)
  then have "rleft (wb u) \<noteq> 0" using assms(2) by simp
  moreover have "session u \<noteq> None"
    using ReturnedOk assms(1) write_body_session [of ng s u] by simp
  ultimately show ?thesis using tu by (auto simp: nothing_to_do_def)
next
  case (Broke u)
  then show ?thesis
    using assms(4) by (auto simp: downstream_write_def split: option.splits if_splits)
qed


text \<open>
  C10.  A call of \<open>downstream_read\<close> whose loop met no codec error, and a call of
  \<open>downstream_write\<close> on a session with a codec (as in the state \<open>CONNECTED\<close>) and
  buffers of positive size that met no codec error, return \<open>-1\<close> if at the end the
  codec says that it wants neither to read nor to write and \<^verbatim>\<open>wb_\<close> holds no byte,
  and 0 in every other case: when the codec wants to read, when it wants to write,
  and when \<^verbatim>\<open>wb_\<close> holds bytes.
\<close>

theorem quiescent_session_fails:
  "((\<forall>u. downstream_read_loop ng s \<noteq> ReturnedError u) \<and> downstream_read ng s = Inr (rv, t)
      \<longrightarrow> (\<exists>c. session t = Some c
             \<and> rv = (if \<not> nghttp2_session_want_read ng c
                         \<and> \<not> nghttp2_session_want_write ng c
                         \<and> contents (wb t) = []
                      then - 1 else 0)))
   \<and> (session s \<noteq> None \<and> 0 < capacity (wb s)
        \<and> (\<forall>u. downstream_write_body ng s \<noteq> ReturnedError u)
        \<and> downstream_write ng s = Inr (rv, t)
      \<longrightarrow> (\<exists>c. session t = Some c
             \<and> rv = (if \<not> nghttp2_session_want_read ng c
                         \<and> \<not> nghttp2_session_want_write ng c
                         \<and> contents (wb t) = []
                      then - 1 else 0)))"
  using downstream_read_quiescent [of ng s rv t] downstream_write_quiescent [of s ng rv t]
  by (simp add: nothing_to_do_def rleft_def)

theorem quiescent_session_fails_witness:
  "downstream_read scripted quiet_session = Inr (- 1, quiet_session)
   \<and> downstream_read scripted (quiet_session\<lparr>session := Some fresh_codec\<rparr>)
       = Inr (0, signal_write (quiet_session\<lparr>session := Some fresh_codec\<rparr>))
   \<and> downstream_read scripted
         (quiet_session\<lparr>session := Some (fresh_codec\<lparr>wants_read := False, wants_write := True\<rparr>)\<rparr>)
       = Inr (0, signal_write
                   (quiet_session\<lparr>session :=
                      Some (fresh_codec\<lparr>wants_read := False, wants_write := True\<rparr>)\<rparr>))
   \<and> downstream_read scripted connected_session = Inr (0, signal_write connected_session)
   \<and> downstream_write scripted quiet_session
       = Inr (- 1, quiet_session\<lparr>mem_send_log := [[]]\<rparr>)
   \<and> downstream_write scripted (quiet_session\<lparr>session := Some fresh_codec\<rparr>)
       = Inr (0, quiet_session\<lparr>session := Some fresh_codec, mem_send_log := [[]]\<rparr>)
   \<and> downstream_write scripted
         (quiet_session\<lparr>session := Some (fresh_codec\<lparr>wants_read := False, wants_write := True\<rparr>)\<rparr>)
       = Inr (0, quiet_session
                   \<lparr>session := Some (fresh_codec\<lparr>wants_read := False, wants_write := True\<rparr>),
                    mem_send_log := [[]]\<rparr>)
   \<and> downstream_write scripted small_session = Inr (0, after_first_pass)
   \<and> contents (wb quiet_session) = []
   \<and> contents (wb after_first_pass) = [1, 2, 3, 4]
   \<and> \<not> nghttp2_session_want_read scripted (fresh_codec\<lparr>wants_read := False\<rparr>)
   \<and> \<not> nghttp2_session_want_write scripted (fresh_codec\<lparr>wants_read := False\<rparr>)
   \<and> nghttp2_session_want_read scripted fresh_codec"
proof -
  let ?idle = "quiet_session\<lparr>session := Some fresh_codec\<rparr>"
  let ?wr = "quiet_session\<lparr>session := Some (fresh_codec\<lparr>wants_read := False, wants_write := True\<rparr>)\<rparr>"
  have r1: "downstream_read_loop scripted quiet_session = Broke quiet_session"
    by (simp add: downstream_read_loop.simps rb_get_def fixture_defs)
  have r2: "downstream_read_loop scripted connected_session = Broke connected_session"
    by (simp add: downstream_read_loop.simps rb_get_def fixture_defs)
  have r3: "downstream_read_loop scripted ?idle = Broke ?idle"
    by (simp add: downstream_read_loop.simps rb_get_def fixture_defs)
  have r4: "downstream_read_loop scripted ?wr = Broke ?wr"
    by (simp add: downstream_read_loop.simps rb_get_def fixture_defs)
  have w1: "downstream_write_body scripted quiet_session
              = Broke (quiet_session\<lparr>mem_send_log := [[]]\<rparr>)"
    by (simp add: downstream_write_body_def flush_pending_def downstream_write_loop.simps
          fixture_defs)
  have w2: "downstream_write_body scripted small_session = ReturnedOk after_first_pass"
    by (simp add: downstream_write_body_def flush_pending_def downstream_write_loop.simps
          rb_write_def wleft_def Let_def fixture_defs)
  have w3: "downstream_write_body scripted ?idle = Broke (?idle\<lparr>mem_send_log := [[]]\<rparr>)"
    by (simp add: downstream_write_body_def flush_pending_def downstream_write_loop.simps
          fixture_defs)
  have w4: "downstream_write_body scripted ?wr = Broke (?wr\<lparr>mem_send_log := [[]]\<rparr>)"
    by (simp add: downstream_write_body_def flush_pending_def downstream_write_loop.simps
          fixture_defs)
  have a: "downstream_read scripted quiet_session = Inr (- 1, quiet_session)"
    using r1 by (simp add: downstream_read_def nothing_to_do_def rleft_def fixture_defs)
  have b: "downstream_read scripted connected_session = Inr (0, signal_write connected_session)"
    using r2 by (simp add: downstream_read_def nothing_to_do_def rleft_def fixture_defs)
  have a3: "downstream_read scripted ?idle = Inr (0, signal_write ?idle)"
    using r3 by (simp add: downstream_read_def nothing_to_do_def rleft_def fixture_defs)
  have a4: "downstream_read scripted ?wr = Inr (0, signal_write ?wr)"
    using r4 by (simp add: downstream_read_def nothing_to_do_def rleft_def fixture_defs)
  have c: "downstream_write scripted quiet_session
             = Inr (- 1, quiet_session\<lparr>mem_send_log := [[]]\<rparr>)"
    using w1 by (simp add: downstream_write_def nothing_to_do_def rleft_def fixture_defs)
  have c3: "downstream_write scripted ?idle = Inr (0, ?idle\<lparr>mem_send_log := [[]]\<rparr>)"
    using w3 by (simp add: downstream_write_def nothing_to_do_def rleft_def fixture_defs)
  have c4: "downstream_write scripted ?wr = Inr (0, ?wr\<lparr>mem_send_log := [[]]\<rparr>)"
    using w4 by (simp add: downstream_write_def nothing_to_do_def rleft_def fixture_defs)
  have d: "downstream_write scripted small_session = Inr (0, after_first_pass)"
    using w2 by (simp add: downstream_write_def)
  have sq: "session quiet_session = Some (fresh_codec\<lparr>wants_read := False\<rparr>)"
    by (simp add: quiet_session_def)
  have sa: "session after_first_pass = Some fresh_codec"
    by (simp add: after_first_pass_def)
  have ss: "session small_session \<noteq> None \<and> 0 < capacity (wb small_session)"
    by (simp add: small_session_def Http2Session_new_def)
  have e: "\<not> nghttp2_session_want_read scripted (fresh_codec\<lparr>wants_read := False\<rparr>)
           \<and> \<not> nghttp2_session_want_write scripted (fresh_codec\<lparr>wants_read := False\<rparr>)
           \<and> contents (wb quiet_session) = []"
    using quiescent_session_fails [of scripted quiet_session "- 1" quiet_session]
    by (auto simp: a r1 sq split: if_splits)
  have f: "\<not> (\<not> nghttp2_session_want_read scripted fresh_codec
              \<and> \<not> nghttp2_session_want_write scripted fresh_codec
              \<and> contents (wb after_first_pass) = [])"
    using quiescent_session_fails [of scripted small_session 0 after_first_pass]
    by (auto simp: d w2 sa ss split: if_splits)
  have g: "contents (wb after_first_pass) = [1, 2, 3, 4]
           \<and> nghttp2_session_want_read scripted fresh_codec"
    by (simp add: after_first_pass_def scripted_def fresh_codec_def)
  show ?thesis using a a3 a4 b c c3 c4 d e f g by simp
qed

subsection \<open>The clear-text connection through a proxy\<close>

lemma initiate_connection_clear_proxy:
  assumes "state s = PROXY_CONNECTED" and "\<not> ssl_ctx s"
    and "on_connect ng env s = Inr (rv, t)"
  shows "initiate_connection ng env s
           = (if rv \<noteq> - 1 then Inr (- 1, t\<lparr>state := CONNECT_FAILING\<rparr>)
              else Inr (install_handlers t))"
  using assms by (simp add: initiate_connection_def)

lemma connected_clear:
  assumes "check_socket_connected env" and "\<not> ssl s" and "state s \<noteq> PROXY_CONNECTING"
    and "on_connect ng env (s\<lparr>rev_io := True, read_fn := H_read_clear,
                              write_fn := H_write_clear\<rparr>) = Inr (rv, t)"
  shows "connected ng env do_write s
           = (if rv \<noteq> 0 then Inr (- 1, t\<lparr>state := CONNECT_FAILING\<rparr>) else Inr (0, t))"
  using assms by (simp add: connected_def Let_def)

lemma on_connect_result:
  "on_connect ng env s = Inr (rv, t) \<Longrightarrow> rv = 0 \<or> rv = - 1"
  by (auto simp: on_connect_def Let_def
      split: if_splits prod.splits sum.splits option.splits)

text \<open>
  C1.  The code at the site.  \<open>on_connect\<close> returns 0 or \<open>-1\<close>, and \<open>connected\<close>, the
  sibling path, fails with \<open>CONNECT_FAILING\<close> when it returns \<open>-1\<close>.  In the
  clear-text branch of \<open>initiate_connection\<close> with an established tunnel the test is
  the other way round: on the session \<open>tunnelled_session\<close>, where \<open>on_connect\<close>
  succeeds, \<open>initiate_connection\<close> returns \<open>-1\<close> and leaves the state
  \<open>CONNECT_FAILING\<close>; and with a codec library that cannot allocate, where
  \<open>on_connect\<close> fails, \<open>initiate_connection\<close> installs the handlers and returns 0 in
  the state \<open>CONNECTED\<close> without a codec session.
\<close>

theorem initiate_connection_clear_proxy_inverted:
  "(case on_connect scripted env0 tunnelled_session of
      Inl a \<Rightarrow> False
    | Inr (rv, t) \<Rightarrow> rv = 0 \<and> state t = CONNECTED \<and> session t \<noteq> None)
   \<and> (case initiate_connection scripted env0 tunnelled_session of
        Inl a \<Rightarrow> False
      | Inr (rv, t) \<Rightarrow> rv = - 1 \<and> state t = CONNECT_FAILING)
   \<and> (case on_connect out_of_memory env0 tunnelled_session of
        Inl a \<Rightarrow> False
      | Inr (rv, t) \<Rightarrow> rv = - 1)
   \<and> (case initiate_connection out_of_memory env0 tunnelled_session of
        Inl a \<Rightarrow> False
      | Inr (rv, t) \<Rightarrow>
          rv = 0 \<and> state t = CONNECTED \<and> session t = None
          \<and> on_write_fn t = H_downstream_write \<and> rt t)"
proof -
  have a: "\<exists>t. on_connect scripted env0 tunnelled_session = Inr (0, t)
             \<and> state t = CONNECTED \<and> session t \<noteq> None"
    by (simp add: on_connect_def Let_def env0_def fixture_defs rb_write_def wleft_def
          NGHTTP2_CLIENT_CONNECTION_PREFACE_def NGHTTP2_CLIENT_CONNECTION_PREFACE_LEN_def
          reset_connection_check_timer_def signal_write_def)
  have b: "on_connect out_of_memory env0 tunnelled_session
             = Inr (- 1, tunnelled_session\<lparr>state := CONNECTED\<rparr>)"
    by (simp add: on_connect_def Let_def out_of_memory_def fixture_defs)
  have s: "state tunnelled_session = PROXY_CONNECTED \<and> \<not> ssl_ctx tunnelled_session"
    by (simp add: fixture_defs)
  obtain t where t: "on_connect scripted env0 tunnelled_session = Inr (0, t)"
    "state t = CONNECTED" "session t \<noteq> None"
    using a by blast
  have c: "initiate_connection scripted env0 tunnelled_session
             = Inr (- 1, t\<lparr>state := CONNECT_FAILING\<rparr>)"
    using initiate_connection_clear_proxy [of tunnelled_session scripted env0 0 t] s t(1)
    by simp
  have d: "initiate_connection out_of_memory env0 tunnelled_session
             = Inr (install_handlers (tunnelled_session\<lparr>state := CONNECTED\<rparr>))"
    using initiate_connection_clear_proxy [OF _ _ b] s by simp
  show ?thesis
    using t b c d by (simp add: install_handlers_def Let_def fixture_defs)
qed

end
